theory Spec2Isabelle
  imports Main "HOL-Library.AList"
begin

section \<open>JavaScript values\<close>

text \<open>
  The webhook server (\<^verbatim>\<open>examples/webhook_server.js\<close>) receives the request body as parsed
  by \<^verbatim>\<open>bodyParser.json()\<close>, and the client (\<^verbatim>\<open>nodejs/creolecentric-api.js\<close>) receives
  \<^verbatim>\<open>response.data\<close> as parsed by axios. Both are JavaScript values built from JSON:
  \<open>JUndefined\<close> is what a missing property reads as. An object is the list of its own
  properties. Strings are byte strings (UTF-8). The programs only test a number for
  truth and print it, so a number is kept as the string that JavaScript prints for it
  (\<^verbatim>\<open>0\<close> for both zeros, \<^verbatim>\<open>3.5\<close>, \<^verbatim>\<open>1e+21\<close>, \<^verbatim>\<open>Infinity\<close>).
\<close>

datatype jsval =
    JUndefined
  | JNull
  | JBool bool
  | JNum string
  | JStr string
  | JArr "jsval list"
  | JObj "(string \<times> jsval) list"

datatype js_error = TypeError string | Error string

fun message :: "js_error \<Rightarrow> string" where
  "message (TypeError m) = m"
| "message (Error m) = m"

text \<open>Truthiness, as \<^verbatim>\<open>!x\<close>, \<^verbatim>\<open>x || y\<close> and \<^verbatim>\<open>if (x)\<close> test it.\<close>

fun truthy :: "jsval \<Rightarrow> bool" where
  "truthy JUndefined = False"
| "truthy JNull = False"
| "truthy (JBool b) = b"
| "truthy (JNum n) = (n \<noteq> ''0'' \<and> n \<noteq> ''NaN'')"
| "truthy (JStr s) = (s \<noteq> [])"
| "truthy (JArr xs) = True"
| "truthy (JObj kvs) = True"

definition js_or :: "jsval \<Rightarrow> jsval \<Rightarrow> jsval" where
  "js_or a b = (if truthy a then a else b)"

text \<open>
  Property read \<^verbatim>\<open>x.k\<close> for the keys the programs read (\<^verbatim>\<open>event\<close>, \<^verbatim>\<open>job_id\<close>,
  \<^verbatim>\<open>status\<close>, ...; none of them is a property of a prototype): a TypeError on
  \<^verbatim>\<open>null\<close> and \<^verbatim>\<open>undefined\<close>, the own property of an object, \<^verbatim>\<open>undefined\<close>
  otherwise.
\<close>

fun get_prop :: "jsval \<Rightarrow> string \<Rightarrow> js_error + jsval" where
  "get_prop JUndefined k = Inl (TypeError (''Cannot read properties of undefined (reading '' @ [CHR 0x27] @ k @ [CHR 0x27] @ '')''))"
| "get_prop JNull k = Inl (TypeError (''Cannot read properties of null (reading '' @ [CHR 0x27] @ k @ [CHR 0x27] @ '')''))"
| "get_prop (JObj kvs) k = Inr (case map_of kvs k of None \<Rightarrow> JUndefined | Some v \<Rightarrow> v)"
| "get_prop v k = Inr JUndefined"

text \<open>Strict equality \<^verbatim>\<open>v === s\<close> with a string \<open>s\<close>.\<close>

fun strict_eq_str :: "jsval \<Rightarrow> string \<Rightarrow> bool" where
  "strict_eq_str (JStr t) s = (t = s)"
| "strict_eq_str v s = False"

subsection \<open>Conversion to string\<close>

text \<open>
  The decimal digits of a natural number: what JavaScript and the shell print for the
  counts that the programs print (array indices and lengths, HTTP status codes, attempt
  numbers, seconds).
\<close>

definition digit :: "nat \<Rightarrow> char" where
  "digit d = ''0123456789'' ! d"

function nat_str :: "nat \<Rightarrow> string" where
  "nat_str n = (if n < 10 then [digit n] else nat_str (n div 10) @ [digit (n mod 10)])"
  by pat_completeness auto
termination
  by (relation "measure (\<lambda>n. n)") auto

declare nat_str.simps [simp del]

text \<open>
  \<^verbatim>\<open>ToString\<close>, which a template literal \<^verbatim>\<open>`${x}`\<close> applies to \<open>x\<close>. For an object
  it is \<^verbatim>\<open>ToPrimitive\<close> with hint string: the methods \<^verbatim>\<open>toString\<close> and then
  \<^verbatim>\<open>valueOf\<close> are looked up, a callable one is called, and the first result that is not
  an object is converted. An object made by \<^verbatim>\<open>JSON.parse\<close> has no callable own
  property, so:
  \<^item> without an own property \<^verbatim>\<open>toString\<close>, \<^verbatim>\<open>Object.prototype.toString\<close> answers
    \<^verbatim>\<open>[object Object]\<close>;
  \<^item> with an own property \<^verbatim>\<open>toString\<close> (as in \<^verbatim>\<open>{"toString": 1}\<close>) that method is
    hidden by a value that cannot be called, \<^verbatim>\<open>valueOf\<close> is either such a value too or
    \<^verbatim>\<open>Object.prototype.valueOf\<close>, which returns the object itself, and the conversion
    throws \<^verbatim>\<open>TypeError: Cannot convert object to primitive value\<close>.
  An array is converted by \<^verbatim>\<open>Array.prototype.join\<close>: its elements converted and joined
  with commas, \<^verbatim>\<open>null\<close> and \<^verbatim>\<open>undefined\<close> elements giving the empty string.
\<close>

definition no_primitive :: js_error where
  "no_primitive = TypeError ''Cannot convert object to primitive value''"

fun to_string :: "jsval \<Rightarrow> js_error + string"
  and join_elems :: "jsval list \<Rightarrow> js_error + string"
  and elem_string :: "jsval \<Rightarrow> js_error + string" where
  "to_string JUndefined = Inr ''undefined''"
| "to_string JNull = Inr ''null''"
| "to_string (JBool b) = Inr (if b then ''true'' else ''false'')"
| "to_string (JNum n) = Inr n"
| "to_string (JStr s) = Inr s"
| "to_string (JArr xs) = join_elems xs"
| "to_string (JObj kvs) =
     (case map_of kvs ''toString'' of
        None \<Rightarrow> Inr ''[object Object]''
      | Some f \<Rightarrow> Inl no_primitive)"
| "join_elems [] = Inr []"
| "join_elems [x] = elem_string x"
| "join_elems (x # y # ys) =
     (case elem_string x of
        Inl e \<Rightarrow> Inl e
      | Inr a \<Rightarrow> (case join_elems (y # ys) of
                    Inl e \<Rightarrow> Inl e
                  | Inr b \<Rightarrow> Inr (a @ '','' @ b)))"
| "elem_string JUndefined = Inr []"
| "elem_string JNull = Inr []"
| "elem_string v = to_string v"

text \<open>A template literal: literal chunks and substituted values, converted left to right.\<close>

datatype piece = Lit string | Val jsval

fun template :: "piece list \<Rightarrow> js_error + string" where
  "template [] = Inr []"
| "template (Lit s # ps) =
     (case template ps of Inl e \<Rightarrow> Inl e | Inr r \<Rightarrow> Inr (s @ r))"
| "template (Val v # ps) =
     (case to_string v of
        Inl e \<Rightarrow> Inl e
      | Inr s \<Rightarrow> (case template ps of Inl e \<Rightarrow> Inl e | Inr r \<Rightarrow> Inr (s @ r)))"

text \<open>
  Object spread \<^verbatim>\<open>{...x}\<close>: the own enumerable properties of \<open>x\<close>; an array
  contributes its indices, a string its characters, any other primitive nothing.
\<close>

fun index_from :: "nat \<Rightarrow> jsval list \<Rightarrow> (string \<times> jsval) list" where
  "index_from i [] = []"
| "index_from i (x # xs) = (nat_str i, x) # index_from (Suc i) xs"

fun own_props :: "jsval \<Rightarrow> (string \<times> jsval) list" where
  "own_props (JObj kvs) = kvs"
| "own_props (JArr xs) = index_from 0 xs"
| "own_props (JStr s) = index_from 0 (map (\<lambda>c. JStr [c]) s)"
| "own_props v = []"

section \<open>The webhook server\<close>

text \<open>
  The state of \<^verbatim>\<open>examples/webhook_server.js\<close>: the global array \<^verbatim>\<open>webhookEvents\<close>
  (each entry an object, kept as the list of its properties), what was written to the
  console, and the HTTP GET requests that \<^verbatim>\<open>downloadAudio\<close> has handed to axios, each
  with the job id it was started for.
\<close>

datatype console_line =
    ConsoleLog string
  | ConsoleWarn string
  | ConsoleError string
  | ConsoleErrorObj string js_error
  | ConsoleErrorVal string jsval

record server =
  webhookEvents :: "(string \<times> jsval) list list"
  console :: "console_line list"
  requests :: "(jsval \<times> jsval) list"

record response =
  code :: nat
  body :: jsval

text \<open>
  A statement runs on the server state and either completes or throws; what it changed
  before throwing stays changed.
\<close>

type_synonym 'a js = "server \<Rightarrow> (js_error + 'a) \<times> server"

definition ret :: "'a \<Rightarrow> 'a js" where
  "ret x = (\<lambda>s. (Inr x, s))"

definition lift :: "js_error + 'a \<Rightarrow> 'a js" where
  "lift r = (\<lambda>s. (r, s))"

definition bnd :: "'a js \<Rightarrow> ('a \<Rightarrow> 'b js) \<Rightarrow> 'b js" where
  "bnd m f = (\<lambda>s. case m s of (Inl e, s') \<Rightarrow> (Inl e, s') | (Inr x, s') \<Rightarrow> f x s')"

definition seq :: "unit js \<Rightarrow> 'b js \<Rightarrow> 'b js" where
  "seq m n = bnd m (\<lambda>_. n)"

definition print :: "console_line \<Rightarrow> unit js" where
  "print l = (\<lambda>s. (Inr (), s\<lparr>console := console s @ [l]\<rparr>))"

definition console_log :: "piece list \<Rightarrow> unit js" where
  "console_log ps = bnd (lift (template ps)) (\<lambda>str. print (ConsoleLog str))"

definition console_warn :: "piece list \<Rightarrow> unit js" where
  "console_warn ps = bnd (lift (template ps)) (\<lambda>str. print (ConsoleWarn str))"

definition console_error :: "piece list \<Rightarrow> unit js" where
  "console_error ps = bnd (lift (template ps)) (\<lambda>str. print (ConsoleError str))"

text \<open>The pictographs of the console messages, as UTF-8 bytes.\<close>

definition sym_envelope :: string where
  "sym_envelope = [CHR 0xF0, CHR 0x9F, CHR 0x93, CHR 0xA8]"
definition sym_warning :: string where
  "sym_warning = [CHR 0xE2, CHR 0x9A, CHR 0xA0, CHR 0xEF, CHR 0xB8, CHR 0x8F]"
definition sym_cross :: string where
  "sym_cross = [CHR 0xE2, CHR 0x9D, CHR 0x8C]"
definition sym_clipboard :: string where
  "sym_clipboard = [CHR 0xF0, CHR 0x9F, CHR 0x93, CHR 0x8B]"
definition sym_rocket :: string where
  "sym_rocket = [CHR 0xF0, CHR 0x9F, CHR 0x9A, CHR 0x80]"
definition sym_note :: string where
  "sym_note = [CHR 0xF0, CHR 0x9F, CHR 0x8E, CHR 0xB5]"
definition sym_cloud :: string where
  "sym_cloud = [CHR 0xE2, CHR 0x98, CHR 0x81, CHR 0xEF, CHR 0xB8, CHR 0x8F]"
definition sym_check :: string where
  "sym_check = [CHR 0xE2, CHR 0x9C, CHR 0x85]"
definition sym_inbox :: string where
  "sym_inbox = [CHR 0xF0, CHR 0x9F, CHR 0x93, CHR 0xA5]"
definition sym_disk :: string where
  "sym_disk = [CHR 0xF0, CHR 0x9F, CHR 0x92, CHR 0xBE]"

subsection \<open>The event handlers\<close>

definition handleQueued :: "jsval \<Rightarrow> unit js" where
  "handleQueued data =
     bnd (lift (get_prop data ''job_id'')) (\<lambda>jobId.
     bnd (lift (get_prop data ''queue_position'')) (\<lambda>queuePosition.
     console_log [Lit (sym_clipboard @ '' Job ''), Val jobId,
                  Lit '' queued at position '', Val queuePosition]))"

definition handleStarted :: "jsval \<Rightarrow> unit js" where
  "handleStarted data =
     bnd (lift (get_prop data ''job_id'')) (\<lambda>jobId.
     console_log [Lit (sym_rocket @ '' Job ''), Val jobId, Lit '' processing started''])"

definition handleSynthesized :: "jsval \<Rightarrow> unit js" where
  "handleSynthesized data =
     bnd (lift (get_prop data ''job_id'')) (\<lambda>jobId.
     bnd (lift (get_prop data ''duration_seconds'')) (\<lambda>duration.
     console_log [Lit (sym_note @ '' Job ''), Val jobId,
                  Lit '' synthesized, duration: '', Val duration, Lit ''s'']))"

definition handleUploaded :: "jsval \<Rightarrow> unit js" where
  "handleUploaded data =
     bnd (lift (get_prop data ''job_id'')) (\<lambda>jobId.
     bnd (lift (get_prop data ''s3_url'')) (\<lambda>s3Url.
     console_log [Lit (sym_cloud @ ''  Job ''), Val jobId,
                  Lit '' uploaded to S3: '', Val s3Url]))"

text \<open>
  \<^verbatim>\<open>downloadAudio\<close> is an \<^verbatim>\<open>async\<close> function called without \<^verbatim>\<open>await\<close>: the caller
  runs it up to its first \<^verbatim>\<open>await\<close>, where the GET request has been handed to axios,
  and never sees its outcome. Its \<^verbatim>\<open>try\<close> block catches what the part before throws.
\<close>

definition downloadAudio :: "jsval \<Rightarrow> jsval \<Rightarrow> unit js" where
  "downloadAudio jobId audioUrl = (\<lambda>s.
     case console_log [Lit (sym_inbox @ '' Downloading audio for job ''), Val jobId] s of
       (Inr u, s') \<Rightarrow> (Inr (), s'\<lparr>requests := requests s' @ [(jobId, audioUrl)]\<rparr>)
     | (Inl e, s') \<Rightarrow>
         print (ConsoleError (sym_cross @ '' Failed to download audio: '' @ message e)) s')"

definition handleDelivered :: "jsval \<Rightarrow> unit js" where
  "handleDelivered data =
     bnd (lift (get_prop data ''job_id'')) (\<lambda>jobId.
     bnd (lift (get_prop data ''audio_file_url'')) (\<lambda>audioUrl.
     bnd (lift (get_prop data ''s3_url'')) (\<lambda>s3Url.
     bnd (lift (get_prop data ''credits_used'')) (\<lambda>creditsUsed.
     bnd (lift (get_prop data ''duration_seconds'')) (\<lambda>duration.
     seq (console_log [Lit (sym_check @ '' Job ''), Val jobId, Lit '' completed successfully!''])
    (seq (console_log [Lit ''   Audio URL: '', Val audioUrl])
    (seq (console_log [Lit ''   S3 URL: '', Val s3Url])
    (seq (console_log [Lit ''   Duration: '', Val duration, Lit ''s''])
    (seq (console_log [Lit ''   Credits used: '', Val creditsUsed])
         (if truthy audioUrl then downloadAudio jobId audioUrl else ret ()))))))))))"

definition handleFailed :: "jsval \<Rightarrow> unit js" where
  "handleFailed data =
     bnd (lift (get_prop data ''job_id'')) (\<lambda>jobId.
     bnd (lift (get_prop data ''error_message'')) (\<lambda>em.
     console_error [Lit (sym_cross @ '' Job ''), Val jobId, Lit '' failed: '',
                    Val (js_or em (JStr ''Unknown error''))]))"

subsection \<open>\<^verbatim>\<open>POST /webhook\<close>\<close>

text \<open>
  The \<^verbatim>\<open>switch\<close> on the event type compares with \<^verbatim>\<open>===\<close>: only a string selects a
  handler.
\<close>

definition dispatch :: "jsval \<Rightarrow> jsval \<Rightarrow> unit js" where
  "dispatch eventType data =
     (if strict_eq_str eventType ''tts_queued'' then handleQueued data
      else if strict_eq_str eventType ''tts_started'' then handleStarted data
      else if strict_eq_str eventType ''tts_synthesized'' then handleSynthesized data
      else if strict_eq_str eventType ''tts_uploaded'' then handleUploaded data
      else if strict_eq_str eventType ''tts_delivered'' then handleDelivered data
      else if strict_eq_str eventType ''tts_failed'' then handleFailed data
      else console_warn [Lit (sym_warning @ ''  Unknown event type: ''), Val eventType])"

definition store_event :: "string \<Rightarrow> jsval \<Rightarrow> unit js" where
  "store_event now data = (\<lambda>s.
     (Inr (), s\<lparr>webhookEvents := webhookEvents s @
                 [AList.update ''received_at'' (JStr now) (own_props data)]\<rparr>))"

text \<open>
  The body of the \<^verbatim>\<open>try\<close> block; \<open>now\<close> is what \<^verbatim>\<open>new Date().toISOString()\<close> returns
  while the request is handled.
\<close>

definition webhook_try :: "string \<Rightarrow> jsval \<Rightarrow> response js" where
  "webhook_try now data =
     (if \<not> truthy data then
        seq (print (ConsoleWarn ''Received webhook with no data''))
            (ret \<lparr>code = 400, body = JObj [(''error'', JStr ''No data provided'')]\<rparr>)
      else
        bnd (lift (get_prop data ''event'')) (\<lambda>ev.
        bnd (lift (get_prop data ''job_id'')) (\<lambda>jid.
        bnd (lift (get_prop data ''status'')) (\<lambda>st.
        let eventType = js_or ev (JStr ''unknown'');
            jobId = js_or jid (JStr ''unknown'');
            status = js_or st (JStr ''unknown'')
        in
        seq (console_log [Lit ([CHR 0x0A] @ sym_envelope @ '' Received webhook: ''), Val eventType,
                          Lit '' for job '', Val jobId, Lit '' (status: '', Val status, Lit '')''])
       (seq (store_event now data)
       (seq (dispatch eventType data)
       (bnd (lift (template [Lit ''Webhook '', Val eventType, Lit '' processed''])) (\<lambda>msg.
        ret \<lparr>code = 200,
             body = JObj [(''status'', JStr ''success''), (''message'', JStr msg),
                          (''job_id'', jobId)]\<rparr>))))))))"

definition webhook_post :: "string \<Rightarrow> jsval \<Rightarrow> server \<Rightarrow> response \<times> server" where
  "webhook_post now data s =
     (case webhook_try now data s of
        (Inr r, s') \<Rightarrow> (r, s')
      | (Inl e, s') \<Rightarrow>
          (\<lparr>code = 500, body = JObj [(''error'', JStr (message e))]\<rparr>,
           s'\<lparr>console := console s' @ [ConsoleErrorObj (sym_cross @ '' Error processing webhook:'') e]\<rparr>))"

subsection \<open>\<^verbatim>\<open>GET /events\<close>, \<^verbatim>\<open>GET /events/:jobId\<close> and \<^verbatim>\<open>GET /health\<close>\<close>

definition job_id_of :: "(string \<times> jsval) list \<Rightarrow> jsval" where
  "job_id_of e = (case map_of e ''job_id'' of None \<Rightarrow> JUndefined | Some v \<Rightarrow> v)"

definition get_events :: "server \<Rightarrow> jsval" where
  "get_events s = JArr (map JObj (webhookEvents s))"

definition get_events_job :: "string \<Rightarrow> server \<Rightarrow> jsval" where
  "get_events_job jobId s =
     JArr (map JObj (filter (\<lambda>e. strict_eq_str (job_id_of e) jobId) (webhookEvents s)))"

definition get_health :: "server \<Rightarrow> jsval" where
  "get_health s =
     JObj [(''status'', JStr ''healthy''), (''events_received'', JNum (nat_str (length (webhookEvents s))))]"

definition init_server :: server where
  "init_server = \<lparr>webhookEvents = [], console = [], requests = []\<rparr>"

text \<open>
  The rest of \<^verbatim>\<open>downloadAudio\<close>, run when axios settles the request: a rejection (no
  connection, a status outside 2xx) is caught and logged; otherwise the body is piped to
  the file \<open>filename\<close> (\<^verbatim>\<open>path.join(downloadsDir, `${jobId}.mp3`)\<close>) and the write stream
  reports \<^verbatim>\<open>finish\<close> or \<^verbatim>\<open>error\<close>. No branch starts another request.
\<close>

datatype write_result = Finish | WriteError string
datatype fetch_result = Rejected js_error | Streamed write_result

fun downloadAudio_settle :: "string \<Rightarrow> fetch_result \<Rightarrow> server \<Rightarrow> server" where
  "downloadAudio_settle filename (Rejected e) s =
     s\<lparr>console := console s @ [ConsoleError (sym_cross @ '' Failed to download audio: '' @ message e)]\<rparr>"
| "downloadAudio_settle filename (Streamed Finish) s =
     s\<lparr>console := console s @ [ConsoleLog (sym_disk @ '' Audio saved to '' @ filename)]\<rparr>"
| "downloadAudio_settle filename (Streamed (WriteError m)) s =
     s\<lparr>console := console s @ [ConsoleError (sym_cross @ '' Error saving audio: '' @ m)]\<rparr>"

text \<open>A run of the server: the \<^verbatim>\<open>POST /webhook\<close> requests in arrival order, each with its time.\<close>

fun posts :: "(string \<times> jsval) list \<Rightarrow> server \<Rightarrow> server" where
  "posts [] s = s"
| "posts ((now, data) # ps) s = posts ps (snd (webhook_post now data s))"

section \<open>The API client\<close>

text \<open>
  The class \<^verbatim>\<open>CreoleCentricAPI\<close> of \<^verbatim>\<open>nodejs/creolecentric-api.js\<close>. The remote service
  is a parameter: \<open>api jobId k\<close> is how long the \<open>k\<close>-th status request for the job takes, in
  milliseconds (with any delay of the scheduler before the client runs again), and how axios
  settles it, with an error or with \<^verbatim>\<open>response.data\<close>.
\<close>

datatype axios_error =
    ResponseError nat string jsval
  | NoResponse string
  | RequestError string

datatype client_error = Axios axios_error | Thrown js_error

type_synonym api = "string \<Rightarrow> nat \<Rightarrow> nat \<times> (axios_error + jsval)"

text \<open>
  The state of a client: the clock that \<^verbatim>\<open>Date.now()\<close> reads (milliseconds, never running
  backwards), the number of status requests sent, the console, and the URLs fetched by
  \<^verbatim>\<open>downloadAudio\<close>. Times and the two arguments of \<^verbatim>\<open>waitForJob\<close> are whole numbers
  in the range where JavaScript computes exactly and prints in decimal.
\<close>

record client =
  clock :: nat
  calls :: nat
  printed :: "console_line list"
  fetches :: "string list"









text \<open>
  \<^verbatim>\<open>downloadAudio\<close> of the client: one \<^verbatim>\<open>axios.get\<close>; its rejection rejects the call, and
  otherwise the promise follows the write stream.
\<close>

definition api_downloadAudio ::
  "string \<Rightarrow> fetch_result \<Rightarrow> client \<Rightarrow> (client_error + unit) \<times> client" where
  "api_downloadAudio audioUrl r c =
     (let c' = c\<lparr>fetches := fetches c @ [audioUrl]\<rparr>
      in case r of
           Rejected e \<Rightarrow> (Inl (Thrown e), c')
         | Streamed Finish \<Rightarrow> (Inr (), c')
         | Streamed (WriteError m) \<Rightarrow> (Inl (Thrown (Error m)), c'))"

section \<open>The polling script\<close>

text \<open>
  The polling loop of \<^verbatim>\<open>examples/tts_job_with_polling.sh\<close> and what follows it. The shell
  variables that the script parses out of one status response are a record; the service is
  the function giving the record of the \<open>n\<close>-th request, counted from 1. The environment
  also says whether the \<^verbatim>\<open>curl\<close> that downloads the audio succeeds, and what \<^verbatim>\<open>du\<close>
  prints for the file when it is installed. What the script does is a list of actions: a
  status request with its number, a line written to the terminal, a \<^verbatim>\<open>sleep\<close> with its
  seconds, and the download of a URL into a file.
\<close>

record status_vars =
  STATUS :: string
  QUEUE_POSITION :: string
  AUDIO_URL :: string
  ERROR_MESSAGE :: string
  DURATION :: string
  S3_URL :: string

record script_env =
  responses :: "nat \<Rightarrow> status_vars"
  curl_ok :: bool
  file_size :: "string option"

datatype action = Query nat | Echo string | Sleep nat | Fetch string string

datatype loop_end = Exited nat | Ended nat

definition MAX_ATTEMPTS :: nat where "MAX_ATTEMPTS = 30"
definition POLL_INTERVAL :: nat where "POLL_INTERVAL = 2"

definition API_BASE_URL :: string where
  "API_BASE_URL = ''https://creolecentric.com/api/v1''"

definition sym_tick :: string where "sym_tick = [CHR 0xE2, CHR 0x9C, CHR 0x93]"
definition sym_ballot :: string where "sym_ballot = [CHR 0xE2, CHR 0x9C, CHR 0x97]"

text \<open>\<^verbatim>\<open>[[ -n "$X" ]] && [[ "$X" != "null" ]]\<close>\<close>

definition present :: "string \<Rightarrow> bool" where
  "present x \<longleftrightarrow> x \<noteq> [] \<and> x \<noteq> ''null''"

definition attempt_line :: "nat \<Rightarrow> nat \<Rightarrow> status_vars \<Rightarrow> string" where
  "attempt_line a m v =
     ''  Attempt '' @ nat_str a @ ''/'' @ nat_str m @ '' - Status: '' @ STATUS v @
     (if QUEUE_POSITION v \<noteq> ''N/A'' \<and> QUEUE_POSITION v \<noteq> ''null'' \<and> QUEUE_POSITION v \<noteq> []
      then '' (Queue position: '' @ QUEUE_POSITION v @ '')'' else [])"

definition completed_actions :: "script_env \<Rightarrow> string \<Rightarrow> status_vars \<Rightarrow> action list" where
  "completed_actions env jobId v =
     [Echo [], Echo (sym_tick @ '' Job completed successfully!'')] @
     (if present (DURATION v) then [Echo (''  Duration: '' @ DURATION v @ '' seconds'')] else []) @
     (if present (AUDIO_URL v) then [Echo (''  Audio URL: '' @ AUDIO_URL v)] else []) @
     (if present (S3_URL v) then [Echo (''  S3 URL: '' @ S3_URL v)] else []) @
     (if present (AUDIO_URL v) then
        [Echo [], Echo ''3. Downloading audio file...'',
         Fetch (AUDIO_URL v) (''output_'' @ take 8 jobId @ ''.mp3'')] @
        (if curl_ok env then
           Echo (sym_tick @ '' Audio saved as: '' @ ''output_'' @ take 8 jobId @ ''.mp3'') #
           (case file_size env of None \<Rightarrow> [] | Some z \<Rightarrow> [Echo (''  File size: '' @ z)])
         else [Echo (sym_ballot @ '' Failed to download audio file'')])
      else [])"

definition failed_actions :: "status_vars \<Rightarrow> action list" where
  "failed_actions v =
     [Echo [], Echo (sym_ballot @ '' Job failed!'')] @
     (if present (ERROR_MESSAGE v) then [Echo (''  Error: '' @ ERROR_MESSAGE v)] else [])"

definition cancelled_actions :: "action list" where
  "cancelled_actions = [Echo [], Echo (sym_ballot @ '' Job was cancelled'')]"

text \<open>
  The \<^verbatim>\<open>while\<close> loop from the value \<open>a\<close> of \<^verbatim>\<open>ATTEMPT\<close>: how it ends (an \<^verbatim>\<open>exit\<close>
  in the loop, or the loop left with the last value of \<^verbatim>\<open>ATTEMPT\<close>) and what it does.
\<close>

function poll_loop ::
  "script_env \<Rightarrow> string \<Rightarrow> nat \<Rightarrow> nat \<Rightarrow> nat \<Rightarrow> loop_end \<times> action list" where
  "poll_loop env jobId m i a =
     (if a < m then
        (let v = responses env (Suc a);
             pre = [Query (Suc a), Echo (attempt_line (Suc a) m v)]
         in if STATUS v = ''completed'' then (Ended (Suc a), pre @ completed_actions env jobId v)
            else if STATUS v = ''failed'' then (Exited 1, pre @ failed_actions v)
            else if STATUS v = ''cancelled'' then (Exited 1, pre @ cancelled_actions)
            else (fst (poll_loop env jobId m i (Suc a)),
                  pre @ Sleep i # snd (poll_loop env jobId m i (Suc a))))
      else (Ended a, []))"
  by pat_completeness auto
termination
  by (relation "measure (\<lambda>(env, jobId, m, i, a). m - a)") auto

declare poll_loop.simps [simp del]

definition timeout_actions :: "string \<Rightarrow> action list" where
  "timeout_actions jobId =
     [Echo [], Echo (sym_ballot @ '' Timeout: Job did not complete within expected time''),
      Echo ''  You can check the status later using:'',
      Echo (''  curl -X GET '' @ [CHR 0x22] @ API_BASE_URL @ ''/tts/jobs/'' @ jobId @ ''/'' @
            [CHR 0x22, CHR 0x20, CHR 0x5C]),
      Echo (''    -H '' @ [CHR 0x22] @ ''Authorization: ApiKey $CREOLECENTRIC_API_KEY'' @ [CHR 0x22])]"

definition done_actions :: "action list" where
  "done_actions =
     [Echo [], Echo ''=========================================='',
      Echo ''Example completed successfully!'',
      Echo ''=========================================='']"

text \<open>The loop and the test after it; the result is the exit status and what was done.\<close>

definition poll_script :: "script_env \<Rightarrow> string \<Rightarrow> nat \<Rightarrow> nat \<Rightarrow> nat \<times> action list" where
  "poll_script env jobId m i =
     (case poll_loop env jobId m i 0 of
        (Exited n, tr) \<Rightarrow> (n, tr)
      | (Ended a, tr) \<Rightarrow>
          if a = m then (1, tr @ timeout_actions jobId) else (0, tr @ done_actions))"

definition tts_job_with_polling :: "script_env \<Rightarrow> string \<Rightarrow> nat \<times> action list" where
  "tts_job_with_polling env jobId = poll_script env jobId MAX_ATTEMPTS POLL_INTERVAL"

section \<open>Notions used in the statements\<close>

subsection \<open>Reading a payload\<close>

text \<open>What \<^verbatim>\<open>data.k\<close> reads once \<open>data\<close> is known to be truthy.\<close>

fun field :: "jsval \<Rightarrow> string \<Rightarrow> jsval" where
  "field (JObj kvs) k = (case map_of kvs k of None \<Rightarrow> JUndefined | Some v \<Rightarrow> v)"
| "field v k = JUndefined"

definition eventType_of :: "jsval \<Rightarrow> jsval" where
  "eventType_of data = js_or (field data ''event'') (JStr ''unknown'')"

definition jobId_of :: "jsval \<Rightarrow> jsval" where
  "jobId_of data = js_or (field data ''job_id'') (JStr ''unknown'')"

definition status_of :: "jsval \<Rightarrow> jsval" where
  "status_of data = js_or (field data ''status'') (JStr ''unknown'')"

text \<open>A value is printable when its conversion to a string does not throw.\<close>

definition printable :: "jsval \<Rightarrow> bool" where
  "printable v = (case to_string v of Inl e \<Rightarrow> False | Inr s \<Rightarrow> True)"

definition str_of :: "jsval \<Rightarrow> string" where
  "str_of v = (case to_string v of Inl e \<Rightarrow> [] | Inr s \<Rightarrow> s)"

text \<open>
  The requests that get as far as \<^verbatim>\<open>webhookEvents.push\<close>: the body is truthy and the
  first console message can be built.
\<close>

definition stored :: "jsval \<Rightarrow> bool" where
  "stored data \<longleftrightarrow>
     truthy data \<and> printable (eventType_of data) \<and> printable (jobId_of data) \<and>
     printable (status_of data)"

definition entry :: "string \<Rightarrow> jsval \<Rightarrow> (string \<times> jsval) list" where
  "entry now data = AList.update ''received_at'' (JStr now) (own_props data)"

definition recognized :: "jsval \<Rightarrow> bool" where
  "recognized ev \<longleftrightarrow>
     ev = JStr ''tts_queued'' \<or> ev = JStr ''tts_started'' \<or> ev = JStr ''tts_synthesized'' \<or>
     ev = JStr ''tts_uploaded'' \<or> ev = JStr ''tts_delivered'' \<or> ev = JStr ''tts_failed''"

text \<open>The first console line of a stored request, and the success response.\<close>

definition header :: "jsval \<Rightarrow> string" where
  "header data = [CHR 0x0A] @ sym_envelope @ '' Received webhook: '' @ str_of (eventType_of data) @
     '' for job '' @ str_of (jobId_of data) @ '' (status: '' @ str_of (status_of data) @ '')''"

definition ack :: "jsval \<Rightarrow> response" where
  "ack data = \<lparr>code = 200,
     body = JObj [(''status'', JStr ''success''),
                  (''message'', JStr (''Webhook '' @ str_of (eventType_of data) @ '' processed'')),
                  (''job_id'', jobId_of data)]\<rparr>"

text \<open>What \<^verbatim>\<open>handleDelivered\<close> prints before it looks at the audio URL.\<close>

definition delivered_lines :: "jsval \<Rightarrow> console_line list" where
  "delivered_lines data =
     [ConsoleLog (sym_check @ '' Job '' @ str_of (field data ''job_id'') @ '' completed successfully!''),
      ConsoleLog (''   Audio URL: '' @ str_of (field data ''audio_file_url'')),
      ConsoleLog (''   S3 URL: '' @ str_of (field data ''s3_url'')),
      ConsoleLog (''   Duration: '' @ str_of (field data ''duration_seconds'') @ ''s''),
      ConsoleLog (''   Credits used: '' @ str_of (field data ''credits_used''))]"

definition delivered_printable :: "jsval \<Rightarrow> bool" where
  "delivered_printable data \<longleftrightarrow>
     printable (field data ''job_id'') \<and> printable (field data ''audio_file_url'') \<and>
     printable (field data ''s3_url'') \<and> printable (field data ''duration_seconds'') \<and>
     printable (field data ''credits_used'')"

subsection \<open>What a statement adds to the state\<close>

definition extend :: "server \<Rightarrow> server \<Rightarrow> server" where
  "extend s d = s\<lparr>webhookEvents := webhookEvents s @ webhookEvents d,
                  console := console s @ console d,
                  requests := requests s @ requests d\<rparr>"

definition framed :: "'a js \<Rightarrow> bool" where
  "framed m \<longleftrightarrow> (\<forall>s. m s = (fst (m init_server), extend s (snd (m init_server))))"

definition keeps :: "(server \<Rightarrow> 'b) \<Rightarrow> 'a js \<Rightarrow> bool" where
  "keeps g m \<longleftrightarrow> (\<forall>s. g (snd (m s)) = g s)"

text \<open>A statement completes when it does not throw; a scalar is neither an array nor an object.\<close>

definition completes :: "'a js \<Rightarrow> bool" where
  "completes m = (case fst (m init_server) of Inl e \<Rightarrow> False | Inr x \<Rightarrow> True)"

fun scalar :: "jsval \<Rightarrow> bool" where
  "scalar (JArr xs) = False"
| "scalar (JObj kvs) = False"
| "scalar v = True"

subsection \<open>Sample payloads\<close>

definition t1 :: string where "t1 = ''2026-01-01T00:00:00.000Z''"
definition t2 :: string where "t2 = ''2026-01-01T00:00:05.000Z''"

definition ev_delivered :: jsval where
  "ev_delivered = JObj [(''event'', JStr ''tts_delivered''), (''job_id'', JStr ''j1''),
     (''status'', JStr ''completed''), (''audio_file_url'', JStr ''https://x/a.mp3'')]"

definition ev_failed :: jsval where
  "ev_failed = JObj [(''event'', JStr ''tts_failed''), (''job_id'', JStr ''j1''),
     (''status'', JStr ''failed''), (''error_message'', JStr ''synthesis error'')]"

definition ev_archived :: jsval where
  "ev_archived = JObj [(''event'', JStr ''tts_archived''), (''job_id'', JStr ''j1''),
     (''status'', JStr ''archived'')]"

definition ev_object_event :: jsval where
  "ev_object_event = JObj [(''event'', JObj [(''toString'', JNum ''1'')])]"

definition ev_delivered_object_s3 :: jsval where
  "ev_delivered_object_s3 = JObj [(''event'', JStr ''tts_delivered''), (''job_id'', JStr ''j1''),
     (''status'', JStr ''completed''), (''audio_file_url'', JStr ''https://x/a.mp3''),
     (''s3_url'', JObj [(''toString'', JNum ''1'')])]"

subsection \<open>Reading a status response and a trace of the script\<close>

text \<open>A status response that \<^verbatim>\<open>waitForJob\<close> can read and print.\<close>

definition readable :: "jsval \<Rightarrow> bool" where
  "readable v = (case get_prop v ''status'' of Inl e \<Rightarrow> False | Inr st \<Rightarrow> printable st)"

definition terminal_status :: "string \<Rightarrow> bool" where
  "terminal_status x \<longleftrightarrow> x = ''completed'' \<or> x = ''failed'' \<or> x = ''cancelled''"

fun queries_of :: "action list \<Rightarrow> nat list" where
  "queries_of [] = []"
| "queries_of (Query n # tr) = n # queries_of tr"
| "queries_of (x # tr) = queries_of tr"

fun sleeps_of :: "action list \<Rightarrow> nat list" where
  "sleeps_of [] = []"
| "sleeps_of (Sleep d # tr) = d # sleeps_of tr"
| "sleeps_of (x # tr) = sleeps_of tr"

fun fetches_of :: "action list \<Rightarrow> (string \<times> string) list" where
  "fetches_of [] = []"
| "fetches_of (Fetch u f # tr) = (u, f) # fetches_of tr"
| "fetches_of (x # tr) = fetches_of tr"

subsection \<open>Sample services\<close>






definition vars :: "string \<Rightarrow> status_vars" where
  "vars x = \<lparr>STATUS = x, QUEUE_POSITION = ''N/A'', AUDIO_URL = ''https://x/a.mp3'',
             ERROR_MESSAGE = ''synthesis error'', DURATION = ''null'', S3_URL = []\<rparr>"

definition env_third :: "string \<Rightarrow> script_env" where
  "env_third x = \<lparr>responses = (\<lambda>n. vars (if n < 3 then ''processing'' else x)),
                  curl_ok = True, file_size = None\<rparr>"

definition env_cancelled :: script_env where
  "env_cancelled =
     \<lparr>responses = (\<lambda>n. \<lparr>STATUS = ''cancelled'', QUEUE_POSITION = ''null'', AUDIO_URL = [],
                          ERROR_MESSAGE = ''cancelled by user'', DURATION = ''null'', S3_URL = ''null''\<rparr>),
      curl_ok = True, file_size = None\<rparr>"


section \<open>Properties of the webhook server and of the client\<close>

subsection \<open>Statements and the state\<close>

lemmas js_defs = bnd_def seq_def lift_def ret_def print_def
  console_log_def console_warn_def console_error_def

lemma get_prop_truthy: "truthy d \<Longrightarrow> get_prop d k = Inr (field d k)"
  by (cases d) simp_all

lemma extend_init [simp]: "extend init_server d = d" "extend s init_server = s"
  by (simp_all add: extend_def init_server_def)

lemma extend_assoc: "extend (extend s a) b = extend s (extend a b)"
  by (simp add: extend_def)

lemma framedI: "(\<And>s. m s = (r, extend s d)) \<Longrightarrow> framed m"
proof -
  assume h: "\<And>s. m s = (r, extend s d)"
  have "m init_server = (r, d)" using h [of init_server] by simp
  then show ?thesis unfolding framed_def using h by simp
qed

lemma framed_ret: "framed (ret x)"
  by (rule framedI [where d = init_server]) (simp add: ret_def)

lemma framed_lift: "framed (lift r)"
  by (rule framedI [where d = init_server]) (simp add: lift_def)

lemma framed_print: "framed (print l)"
  by (rule framedI [where d = "init_server\<lparr>console := [l]\<rparr>"])
     (simp add: print_def extend_def init_server_def)

lemma framed_bnd:
  assumes m: "framed m" and f: "\<And>x. framed (f x)"
  shows "framed (bnd m f)"
proof -
  obtain r d where i: "m init_server = (r, d)" by (cases "m init_server")
  have ms: "m s = (r, extend s d)" for s
    using m i unfolding framed_def by (metis fst_conv snd_conv)
  show ?thesis
  proof (cases r)
    case (Inl e)
    show ?thesis
      by (rule framedI [where r = "Inl e" and d = d]) (simp add: bnd_def ms Inl)
  next
    case (Inr x)
    obtain r' d' where j: "f x init_server = (r', d')" by (cases "f x init_server")
    have fs: "f x s = (r', extend s d')" for s
      using f [of x] j unfolding framed_def by (metis fst_conv snd_conv)
    show ?thesis
      by (rule framedI [where r = r' and d = "extend d d'"])
         (simp add: bnd_def ms Inr fs extend_assoc)
  qed
qed

lemma framed_seq: "framed m \<Longrightarrow> framed n \<Longrightarrow> framed (seq m n)"
  unfolding seq_def by (rule framed_bnd)

lemma framed_console:
  "framed (console_log ps)" "framed (console_warn ps)" "framed (console_error ps)"
  unfolding console_log_def console_warn_def console_error_def
  by (intro framed_bnd framed_lift framed_print)+

lemma console_log_Inl: "template ps = Inl e \<Longrightarrow> console_log ps s = (Inl e, s)"
  by (simp add: js_defs)

lemma console_log_Inr:
  "template ps = Inr str \<Longrightarrow>
   console_log ps s = (Inr (), s\<lparr>console := console s @ [ConsoleLog str]\<rparr>)"
  by (simp add: js_defs)

lemma framed_if: "framed a \<Longrightarrow> framed b \<Longrightarrow> framed (if c then a else b)"
  by simp

lemma framed_downloadAudio: "framed (downloadAudio jobId audioUrl)"
proof (cases "template [Lit (sym_inbox @ '' Downloading audio for job ''), Val jobId]")
  case (Inl e)
  show ?thesis
    by (rule framedI [where d = "init_server\<lparr>console :=
          [ConsoleError (sym_cross @ '' Failed to download audio: '' @ message e)]\<rparr>"])
       (simp add: downloadAudio_def console_log_Inl [OF Inl] print_def extend_def init_server_def)
next
  case (Inr str)
  show ?thesis
    by (rule framedI [where d = "init_server\<lparr>console := [ConsoleLog str],
          requests := [(jobId, audioUrl)]\<rparr>"])
       (simp add: downloadAudio_def console_log_Inr [OF Inr] extend_def init_server_def)
qed

lemma framed_handlers:
  "framed (handleQueued data)" "framed (handleStarted data)"
  "framed (handleSynthesized data)" "framed (handleUploaded data)"
  "framed (handleDelivered data)" "framed (handleFailed data)"
  unfolding handleQueued_def handleStarted_def handleSynthesized_def handleUploaded_def
    handleDelivered_def handleFailed_def
  by (intro framed_bnd framed_seq framed_lift framed_console framed_downloadAudio framed_ret
        framed_if)+

lemma framed_dispatch: "framed (dispatch ev data)"
  unfolding dispatch_def by (intro framed_if framed_handlers framed_console)

lemma framed_store_event: "framed (store_event now data)"
  by (rule framedI [where d = "init_server\<lparr>webhookEvents := [entry now data]\<rparr>"])
     (simp add: store_event_def extend_def init_server_def entry_def)

lemma framed_webhook_try: "framed (webhook_try now data)"
  unfolding webhook_try_def Let_def
  by (intro framed_if framed_bnd framed_seq framed_lift framed_console framed_dispatch
        framed_store_event framed_ret framed_print)

lemma webhook_post_extend:
  "webhook_post now data s =
     (fst (webhook_post now data init_server),
      extend s (snd (webhook_post now data init_server)))"
proof -
  obtain r d where i: "webhook_try now data init_server = (r, d)"
    by (cases "webhook_try now data init_server")
  have ms: "webhook_try now data s = (r, extend s d)"
    using framed_webhook_try [of now data] i unfolding framed_def by (metis fst_conv snd_conv)
  show ?thesis
    by (cases r) (simp_all add: webhook_post_def ms i extend_def)
qed

lemma printable_str_of: "printable v \<Longrightarrow> to_string v = Inr (str_of v)"
  by (simp add: printable_def str_of_def split: sum.splits)

lemma not_printable: "\<not> printable v \<Longrightarrow> \<exists>e. to_string v = Inl e"
  by (simp add: printable_def split: sum.splits)

lemma keeps_ret: "keeps g (ret x)"
  by (simp add: keeps_def ret_def)

lemma keeps_lift: "keeps g (lift r)"
  by (simp add: keeps_def lift_def)

lemma keeps_bnd: "keeps g m \<Longrightarrow> (\<And>x. keeps g (f x)) \<Longrightarrow> keeps g (bnd m f)"
  unfolding keeps_def bnd_def
  by (auto split: prod.splits sum.splits) (metis snd_conv)+

lemma keeps_seq: "keeps g m \<Longrightarrow> keeps g n \<Longrightarrow> keeps g (seq m n)"
  unfolding seq_def by (rule keeps_bnd)

lemma keeps_if: "keeps g a \<Longrightarrow> keeps g b \<Longrightarrow> keeps g (if c then a else b)"
  by simp

lemma keeps_print: "keeps webhookEvents (print l)" "keeps requests (print l)"
  by (simp_all add: keeps_def print_def)

lemma keeps_console:
  "keeps webhookEvents (console_log ps)" "keeps webhookEvents (console_warn ps)"
  "keeps webhookEvents (console_error ps)"
  "keeps requests (console_log ps)" "keeps requests (console_warn ps)"
  "keeps requests (console_error ps)"
  unfolding console_log_def console_warn_def console_error_def
  by (intro keeps_bnd keeps_lift keeps_print)+

lemma keeps_events_downloadAudio: "keeps webhookEvents (downloadAudio j u)"
proof (cases "template [Lit (sym_inbox @ '' Downloading audio for job ''), Val j]")
  case (Inl e)
  then show ?thesis
    by (simp add: keeps_def downloadAudio_def console_log_Inl [OF Inl] print_def)
next
  case (Inr str)
  then show ?thesis
    by (simp add: keeps_def downloadAudio_def console_log_Inr [OF Inr])
qed

lemma keeps_events_dispatch: "keeps webhookEvents (dispatch ev data)"
  unfolding dispatch_def handleQueued_def handleStarted_def handleSynthesized_def
    handleUploaded_def handleDelivered_def handleFailed_def
  by (intro keeps_if keeps_bnd keeps_seq keeps_lift keeps_console keeps_ret
        keeps_events_downloadAudio)

lemma keeps_requests_dispatch:
  "\<not> strict_eq_str ev ''tts_delivered'' \<Longrightarrow> keeps requests (dispatch ev data)"
  unfolding dispatch_def handleQueued_def handleStarted_def handleSynthesized_def
    handleUploaded_def handleFailed_def
  by (simp add: keeps_bnd keeps_lift keeps_console)

lemma seq_apply:
  "seq m n s = (case m s of (Inl e, s') \<Rightarrow> (Inl e, s') | (Inr u, s') \<Rightarrow> n s')"
  by (simp add: seq_def bnd_def)

lemma bnd_lift_Inr: "bnd (lift (Inr x)) f = f x"
  by (simp add: bnd_def lift_def)

lemma webhook_try_stored:
  assumes "stored data"
  shows "webhook_try now data s =
     (case dispatch (eventType_of data) data
             (s\<lparr>console := console s @ [ConsoleLog (header data)],
                webhookEvents := webhookEvents s @ [entry now data]\<rparr>) of
        (Inl e, s') \<Rightarrow> (Inl e, s')
      | (Inr u, s') \<Rightarrow> (Inr (ack data), s'))"
proof -
  let ?H = "[Lit ([CHR 0x0A] @ sym_envelope @ '' Received webhook: ''), Val (eventType_of data),
             Lit '' for job '', Val (jobId_of data), Lit '' (status: '', Val (status_of data),
             Lit '')'']"
  let ?s1 = "s\<lparr>console := console s @ [ConsoleLog (header data)]\<rparr>"
  let ?s2 = "?s1\<lparr>webhookEvents := webhookEvents s @ [entry now data]\<rparr>"
  from assms have t: "truthy data"
    and a: "to_string (eventType_of data) = Inr (str_of (eventType_of data))"
    and b: "to_string (jobId_of data) = Inr (str_of (jobId_of data))"
    and c: "to_string (status_of data) = Inr (str_of (status_of data))"
    by (simp_all add: stored_def printable_str_of)
  have h: "template ?H = Inr (header data)"
    using a b c by (simp add: header_def)
  have m: "template [Lit ''Webhook '', Val (eventType_of data), Lit '' processed'']
             = Inr (''Webhook '' @ str_of (eventType_of data) @ '' processed'')"
    using a by simp
  have 1: "console_log ?H s = (Inr (), ?s1)"
    by (rule console_log_Inr [OF h])
  have 2: "store_event now data ?s1 = (Inr (), ?s2)"
    by (simp add: store_event_def entry_def)
  have "webhook_try now data s =
          seq (console_log ?H) (seq (store_event now data)
            (seq (dispatch (eventType_of data) data) (ret (ack data)))) s"
    using t
    by (simp only: webhook_try_def get_prop_truthy bnd_lift_Inr Let_def
          m [unfolded eventType_of_def] ack_def
          eventType_of_def jobId_of_def status_of_def if_False simp_thms)
  also have "\<dots> = seq (store_event now data)
            (seq (dispatch (eventType_of data) data) (ret (ack data))) ?s1"
    by (simp only: seq_apply [of "console_log ?H"] 1 prod.case sum.case)
  also have "\<dots> = seq (dispatch (eventType_of data) data) (ret (ack data)) ?s2"
    by (simp only: seq_apply [of "store_event now data"] 2 prod.case sum.case)
  also have "\<dots> = (case dispatch (eventType_of data) data ?s2 of
        (Inl e, s') \<Rightarrow> (Inl e, s')
      | (Inr u, s') \<Rightarrow> (Inr (ack data), s'))"
    by (simp only: seq_apply ret_def)
  finally show ?thesis .
qed

lemma webhook_try_not_stored:
  assumes "truthy data" "\<not> stored data"
  shows "\<exists>e. webhook_try now data s = (Inl e, s)"
proof -
  from assms have "\<not> printable (eventType_of data) \<or> \<not> printable (jobId_of data) \<or> \<not> printable (status_of data)"
    by (simp add: stored_def)
  then consider e where "to_string (eventType_of data) = Inl e"
    | e x where "to_string (eventType_of data) = Inr x" "to_string (jobId_of data) = Inl e"
    | e x y where "to_string (eventType_of data) = Inr x" "to_string (jobId_of data) = Inr y"
        "to_string (status_of data) = Inl e"
    by (metis not_printable sum.exhaust)
  then show ?thesis
    using assms(1)
    by cases (simp_all add: webhook_try_def get_prop_truthy js_defs
          eventType_of_def jobId_of_def status_of_def)
qed

lemma webhook_try_falsy:
  "\<not> truthy data \<Longrightarrow> webhook_try now data s =
     (Inr \<lparr>code = 400, body = JObj [(''error'', JStr ''No data provided'')]\<rparr>,
      s\<lparr>console := console s @ [ConsoleWarn ''Received webhook with no data'']\<rparr>)"
  by (simp add: webhook_try_def js_defs)

lemma webhookEvents_post:
  "webhookEvents (snd (webhook_post now data s)) =
     (if stored data then webhookEvents s @ [entry now data] else webhookEvents s)"
proof (cases "stored data")
  case True
  let ?s2 = "s\<lparr>console := console s @ [ConsoleLog (header data)],
                webhookEvents := webhookEvents s @ [entry now data]\<rparr>"
  have "webhookEvents (snd (dispatch (eventType_of data) data ?s2)) = webhookEvents ?s2"
    using keeps_events_dispatch unfolding keeps_def by blast
  then show ?thesis
    using True
    by (auto simp add: webhook_post_def webhook_try_stored split: prod.splits sum.splits)
next
  case False
  show ?thesis
  proof (cases "truthy data")
    case True
    then obtain e where "webhook_try now data s = (Inl e, s)"
      using webhook_try_not_stored False by blast
    then show ?thesis using False by (simp add: webhook_post_def)
  next
    case f: False
    then show ?thesis using False by (simp add: webhook_post_def webhook_try_falsy stored_def)
  qed
qed

lemma strict_eq_str_iff: "strict_eq_str v s \<longleftrightarrow> v = JStr s"
  by (cases v) auto

lemma printable_falsy: "\<not> truthy v \<Longrightarrow> printable v"
  by (cases v) (simp_all add: printable_def)

lemma printable_js_or: "printable (js_or v (JStr d)) \<longleftrightarrow> printable v"
  using printable_falsy [of v] by (auto simp add: js_or_def printable_def)

lemma event_is_obj: "field data k = JStr n \<Longrightarrow> truthy data"
  by (cases data) simp_all

lemma handleDelivered_requests:
  assumes "truthy data"
  shows "requests (snd (handleDelivered data s)) =
     (if delivered_printable data \<and> truthy (field data ''audio_file_url'')
      then requests s @ [(field data ''job_id'', field data ''audio_file_url'')]
      else requests s)"
  using assms
  by (auto simp add: handleDelivered_def js_defs get_prop_truthy downloadAudio_def
        delivered_printable_def printable_def split: sum.splits)

lemma handleDelivered_ok:
  assumes "truthy data" "delivered_printable data" "truthy (field data ''audio_file_url'')"
  shows "handleDelivered data s =
     (Inr (), s\<lparr>console := console s @ delivered_lines data @
                  [ConsoleLog (sym_inbox @ '' Downloading audio for job '' @ str_of (field data ''job_id''))],
                requests := requests s @ [(field data ''job_id'', field data ''audio_file_url'')]\<rparr>)"
  using assms
  by (simp add: handleDelivered_def js_defs get_prop_truthy downloadAudio_def
        delivered_printable_def printable_str_of delivered_lines_def)

lemma console_warn_Inr:
  "template ps = Inr str \<Longrightarrow>
   console_warn ps s = (Inr (), s\<lparr>console := console s @ [ConsoleWarn str]\<rparr>)"
  by (simp add: js_defs)

lemma dispatch_unknown:
  "\<not> recognized ev \<Longrightarrow>
   dispatch ev data = console_warn [Lit (sym_warning @ ''  Unknown event type: ''), Val ev]"
  by (simp add: dispatch_def recognized_def strict_eq_str_iff)

lemma dispatch_delivered: "dispatch (JStr ''tts_delivered'') data = handleDelivered data"
  by (simp add: dispatch_def)

lemma dispatch_failed: "dispatch (JStr ''tts_failed'') data = handleFailed data"
  by (simp add: dispatch_def)

lemma requests_post_other:
  assumes "eventType_of data \<noteq> JStr ''tts_delivered''"
  shows "requests (snd (webhook_post now data s)) = requests s"
proof (cases "stored data")
  case True
  let ?s2 = "s\<lparr>console := console s @ [ConsoleLog (header data)],
                webhookEvents := webhookEvents s @ [entry now data]\<rparr>"
  have "requests (snd (dispatch (eventType_of data) data ?s2)) = requests ?s2"
    using keeps_requests_dispatch [of "eventType_of data" data] assms
    unfolding keeps_def strict_eq_str_iff by blast
  then show ?thesis
    using True
    by (auto simp add: webhook_post_def webhook_try_stored split: prod.splits sum.splits)
next
  case False
  show ?thesis
  proof (cases "truthy data")
    case True
    then obtain e where "webhook_try now data s = (Inl e, s)"
      using webhook_try_not_stored False by blast
    then show ?thesis by (simp add: webhook_post_def)
  next
    case f: False
    then show ?thesis by (simp add: webhook_post_def webhook_try_falsy)
  qed
qed

lemma unknown_event_post:
  assumes st: "stored data" and un: "\<not> recognized (eventType_of data)"
  shows "webhook_post now data s =
     (ack data,
      s\<lparr>console := console s @
           [ConsoleLog (header data),
            ConsoleWarn (sym_warning @ ''  Unknown event type: '' @ str_of (eventType_of data))],
        webhookEvents := webhookEvents s @ [entry now data]\<rparr>)"
proof -
  have a: "to_string (eventType_of data) = Inr (str_of (eventType_of data))"
    using st by (simp add: stored_def printable_str_of)
  have t: "template [Lit (sym_warning @ ''  Unknown event type: ''), Val (eventType_of data)]
      = Inr (sym_warning @ ''  Unknown event type: '' @ str_of (eventType_of data))"
    using a by simp
  show ?thesis
    by (simp add: webhook_post_def webhook_try_stored [OF st] dispatch_unknown [OF un]
          console_warn_Inr [OF t])
qed

lemma delivered_post:
  assumes ev: "field data ''event'' = JStr ''tts_delivered''"
    and st: "stored data" and pr: "delivered_printable data"
    and au: "truthy (field data ''audio_file_url'')"
  shows "webhook_post now data s =
     (ack data,
      s\<lparr>console := console s @ ConsoleLog (header data) # delivered_lines data @
           [ConsoleLog (sym_inbox @ '' Downloading audio for job '' @ str_of (field data ''job_id''))],
        webhookEvents := webhookEvents s @ [entry now data],
        requests := requests s @ [(field data ''job_id'', field data ''audio_file_url'')]\<rparr>)"
proof -
  have t: "truthy data" using st by (simp add: stored_def)
  have e: "eventType_of data = JStr ''tts_delivered''"
    using ev by (simp add: eventType_of_def js_or_def)
  show ?thesis
    by (simp add: webhook_post_def webhook_try_stored [OF st] e dispatch_delivered
          handleDelivered_ok [OF t pr au])
qed

lemma requests_post_delivered:
  assumes ev: "field data ''event'' = JStr ''tts_delivered''"
  shows "requests (snd (webhook_post now data s)) =
     (if stored data \<and> delivered_printable data \<and> truthy (field data ''audio_file_url'')
      then requests s @ [(field data ''job_id'', field data ''audio_file_url'')]
      else requests s)"
proof (cases "stored data")
  case True
  have t: "truthy data" using True by (simp add: stored_def)
  have e: "eventType_of data = JStr ''tts_delivered''"
    using ev by (simp add: eventType_of_def js_or_def)
  let ?s2 = "s\<lparr>console := console s @ [ConsoleLog (header data)],
                webhookEvents := webhookEvents s @ [entry now data]\<rparr>"
  have "requests (snd (handleDelivered data ?s2)) =
     (if delivered_printable data \<and> truthy (field data ''audio_file_url'')
      then requests s @ [(field data ''job_id'', field data ''audio_file_url'')]
      else requests s)"
    using handleDelivered_requests [OF t, of ?s2] by simp
  then show ?thesis
    using True
    by (auto simp add: webhook_post_def webhook_try_stored e dispatch_delivered
          split: prod.splits sum.splits)
next
  case False
  have t: "truthy data" using ev by (rule event_is_obj)
  obtain e where "webhook_try now data s = (Inl e, s)"
    using webhook_try_not_stored [OF t False] by blast
  then show ?thesis using False by (simp add: webhook_post_def)
qed

lemma posts_append: "posts (ps @ qs) s = posts qs (posts ps s)"
  by (induction ps arbitrary: s) auto

lemma webhookEvents_posts:
  "webhookEvents (posts ps s) =
     webhookEvents s @ map (\<lambda>(now, data). entry now data) (filter (\<lambda>(now, data). stored data) ps)"
  by (induction ps arbitrary: s) (auto simp add: webhookEvents_post)

lemma digit_in: "d < 10 \<Longrightarrow> digit d \<in> set ''0123456789''"
  unfolding digit_def by (rule nth_mem) simp

lemma nat_str_digits: "set (nat_str n) \<subseteq> set ''0123456789''"
proof (induction n rule: nat_str.induct)
  case (1 n)
  show ?case
  proof (cases "n < 10")
    case True
    then show ?thesis using digit_in [of n] by (subst nat_str.simps) simp
  next
    case False
    have "n mod 10 < 10" by simp
    then have "digit (n mod 10) \<in> set ''0123456789''" by (rule digit_in)
    then show ?thesis using False 1 by (subst nat_str.simps) simp
  qed
qed

lemma nat_str_not_job_id: "nat_str i \<noteq> ''job_id''"
proof
  assume "nat_str i = ''job_id''"
  then have "CHR ''j'' \<in> set (nat_str i)" by simp
  then have "CHR ''j'' \<in> set ''0123456789''" using nat_str_digits by blast
  then show False by simp
qed

lemma map_of_index_from: "map_of (index_from i xs) ''job_id'' = None"
  by (induction xs arbitrary: i) (simp_all add: nat_str_not_job_id [symmetric])

lemma job_id_of_entry: "job_id_of (entry now data) = field data ''job_id''"
  by (cases data)
     (simp_all add: job_id_of_def entry_def update_conv' map_of_index_from)

subsection \<open>The event log\<close>

text \<open>
  Claim C9, as the code has it. A \<^verbatim>\<open>POST /webhook\<close> appends exactly one entry (the own
  properties of the body, with \<^verbatim>\<open>received_at\<close> set to the time) when the body is truthy
  and its event type, job id and status, each defaulting to \<^verbatim>\<open>unknown\<close>, convert to
  strings; every other request leaves the log as it is, and no request changes or removes
  an entry. So \<^verbatim>\<open>events_received\<close> of \<^verbatim>\<open>GET /health\<close> is the number of those
  requests, and \<^verbatim>\<open>GET /events/:jobId\<close> returns their entries whose \<^verbatim>\<open>job_id\<close> is the
  string of the path, in arrival order.
\<close>

theorem event_log_append_only:
  "webhookEvents (posts ps s) =
     webhookEvents s @ map (\<lambda>(now, data). entry now data) (filter (\<lambda>(now, data). stored data) ps)
   \<and> get_health (posts ps init_server) =
     JObj [(''status'', JStr ''healthy''),
           (''events_received'', JNum (nat_str (length (filter (\<lambda>(now, data). stored data) ps))))]
   \<and> get_events_job jobId (posts ps init_server) =
     JArr (map (\<lambda>(now, data). JObj (entry now data))
            (filter (\<lambda>(now, data). stored data \<and> field data ''job_id'' = JStr jobId) ps))"
proof -
  have 1: "webhookEvents (posts ps s) =
     webhookEvents s @ map (\<lambda>(now, data). entry now data) (filter (\<lambda>(now, data). stored data) ps)"
    for s
    by (rule webhookEvents_posts)
  have 2: "get_health (posts ps init_server) =
     JObj [(''status'', JStr ''healthy''),
           (''events_received'', JNum (nat_str (length (filter (\<lambda>(now, data). stored data) ps))))]"
    by (simp add: get_health_def 1 init_server_def)
  have 3: "get_events_job jobId (posts ps init_server) =
     JArr (map (\<lambda>(now, data). JObj (entry now data))
            (filter (\<lambda>(now, data). stored data \<and> field data ''job_id'' = JStr jobId) ps))"
    by (simp add: get_events_job_def 1 init_server_def filter_map comp_def
          strict_eq_str_iff job_id_of_entry case_prod_unfold conj_commute)
  show ?thesis using 1 2 3 by blast
qed

text \<open>
  C9 as stated fails: the body \<^verbatim>\<open>{"event": {"toString": 1}}\<close> is a truthy JSON value,
  and the request appends nothing, because the first console message throws before
  \<^verbatim>\<open>webhookEvents.push\<close> is reached.
\<close>

theorem event_log_counterexample:
  "truthy ev_object_event \<and>
   webhookEvents (snd (webhook_post t1 ev_object_event init_server)) = webhookEvents init_server"
  by (simp add: webhookEvents_post stored_def ev_object_event_def eventType_of_def js_or_def
        printable_def)

subsection \<open>Unrecognized event types\<close>

text \<open>
  Claim C5, as the code has it. When the body is truthy, its event type, job id and status
  (each defaulting to \<^verbatim>\<open>unknown\<close>) convert to strings, and the event type is none of the
  six recognized names, the receiver logs the request, warns about the unknown event type,
  stores the entry, starts no download and answers 200 with the success body.
\<close>

theorem unknown_event_acknowledged:
  assumes "stored data" and "\<not> recognized (eventType_of data)"
  shows "webhook_post now data s =
     (ack data,
      s\<lparr>console := console s @
           [ConsoleLog (header data),
            ConsoleWarn (sym_warning @ ''  Unknown event type: '' @ str_of (eventType_of data))],
        webhookEvents := webhookEvents s @ [entry now data]\<rparr>)"
  using assms by (rule unknown_event_post)

text \<open>The event \<^verbatim>\<open>tts_archived\<close> for job \<^verbatim>\<open>j1\<close> is acknowledged.\<close>

theorem unknown_event_acknowledged_witness:
  "stored ev_archived \<and> \<not> recognized (eventType_of ev_archived) \<and>
   fst (webhook_post t1 ev_archived init_server) =
     \<lparr>code = 200,
      body = JObj [(''status'', JStr ''success''),
                   (''message'', JStr ''Webhook tts_archived processed''),
                   (''job_id'', JStr ''j1'')]\<rparr> \<and>
   requests (snd (webhook_post t1 ev_archived init_server)) = []"
proof -
  have e: "eventType_of ev_archived = JStr ''tts_archived''"
    and j: "jobId_of ev_archived = JStr ''j1''"
    and u: "status_of ev_archived = JStr ''archived''"
    by (simp_all add: ev_archived_def eventType_of_def jobId_of_def status_of_def js_or_def)
  have h1: "stored ev_archived"
    by (simp add: stored_def e j u printable_def) (simp add: ev_archived_def)
  have h2: "\<not> recognized (eventType_of ev_archived)"
    by (simp add: e recognized_def)
  show ?thesis
    using h1 h2 unknown_event_acknowledged [OF h1 h2, of t1 init_server]
    by (simp add: ack_def e j str_of_def init_server_def)
qed

text \<open>
  C5 as stated fails: an event value that is an object with an own \<^verbatim>\<open>toString\<close>
  property is not recognized, and the request is answered with 500.
\<close>

theorem unknown_event_counterexample:
  "\<not> recognized (eventType_of ev_object_event) \<and>
   fst (webhook_post t1 ev_object_event init_server) =
     \<lparr>code = 500, body = JObj [(''error'', JStr ''Cannot convert object to primitive value'')]\<rparr>"
  by (simp add: ev_object_event_def eventType_of_def js_or_def recognized_def
        webhook_post_def webhook_try_def js_defs init_server_def no_primitive_def)

lemma missing_fields_post:
  assumes t: "truthy data"
    and e: "field data ''event'' = JUndefined"
    and j: "field data ''job_id'' = JUndefined"
    and u: "field data ''status'' = JUndefined"
  shows "webhook_post now data s =
       (\<lparr>code = 200,
         body = JObj [(''status'', JStr ''success''),
                      (''message'', JStr ''Webhook unknown processed''),
                      (''job_id'', JStr ''unknown'')]\<rparr>,
        s\<lparr>console := console s @
             [ConsoleLog ([CHR 0x0A] @ sym_envelope @
                '' Received webhook: unknown for job unknown (status: unknown)''),
              ConsoleWarn (sym_warning @ ''  Unknown event type: unknown'')],
          webhookEvents := webhookEvents s @ [entry now data]\<rparr>)"
proof -
  have e': "eventType_of data = JStr ''unknown''"
    and j': "jobId_of data = JStr ''unknown''"
    and u': "status_of data = JStr ''unknown''"
    using e j u by (simp_all add: eventType_of_def jobId_of_def status_of_def js_or_def)
  have st: "stored data"
    using t by (simp add: stored_def e' j' u' printable_def)
  have un: "\<not> recognized (eventType_of data)"
    by (simp add: e' recognized_def)
  show ?thesis
    by (simp add: unknown_event_post [OF st un] ack_def header_def e' j' u' str_of_def)
qed

lemma printable_scalar: "scalar v \<Longrightarrow> printable v"
  by (cases v) (simp_all add: printable_def)

lemma stored_scalars:
  assumes "truthy data" "scalar (field data ''event'')" "scalar (field data ''job_id'')"
    "scalar (field data ''status'')"
  shows "stored data"
  using assms
  by (simp add: stored_def eventType_of_def jobId_of_def status_of_def printable_js_or
        printable_scalar)

lemma framed_fst: "framed m \<Longrightarrow> fst (m s) = fst (m init_server)"
  unfolding framed_def by (metis fst_conv)

lemma code_post:
  "code (fst (webhook_post now data s)) =
     (if \<not> truthy data then 400
      else if stored data \<and> completes (dispatch (eventType_of data) data) then 200 else 500)"
proof (cases "truthy data")
  case False
  then show ?thesis by (simp add: webhook_post_def webhook_try_falsy)
next
  case True
  show ?thesis
  proof (cases "stored data")
    case st: True
    let ?s2 = "s\<lparr>console := console s @ [ConsoleLog (header data)],
                  webhookEvents := webhookEvents s @ [entry now data]\<rparr>"
    have f: "fst (dispatch (eventType_of data) data ?s2) =
             fst (dispatch (eventType_of data) data init_server)"
      by (rule framed_fst [OF framed_dispatch])
    obtain r s3 where d: "dispatch (eventType_of data) data ?s2 = (r, s3)"
      by (cases "dispatch (eventType_of data) data ?s2")
    then have r: "fst (dispatch (eventType_of data) data init_server) = r"
      using f by simp
    show ?thesis
      using True st
      by (cases r) (simp_all add: webhook_post_def webhook_try_stored [OF st] d ack_def
            completes_def r)
  next
    case False
    obtain e where "webhook_try now data s = (Inl e, s)"
      using webhook_try_not_stored [OF True False] by blast
    then show ?thesis using True False by (simp add: webhook_post_def)
  qed
qed

subsection \<open>Rejected and accepted bodies\<close>

text \<open>
  Claim C6, as the code has it. The receiver answers with the client error 400 exactly when
  the body is falsy (absent), and then only writes a warning to the console. A truthy body
  is answered with 200 when the first console message can be built and the handler of its
  event type does not throw, and with 500 otherwise; the answer is fixed before any download
  settles. A body without \<^verbatim>\<open>event\<close>, \<^verbatim>\<open>job_id\<close> and \<^verbatim>\<open>status\<close> is not rejected: the
  three read as \<^verbatim>\<open>unknown\<close>, the entry is stored, the unknown event type is logged and the
  answer is 200 with the success body.
\<close>

theorem rejected_iff_no_body:
  "code (fst (webhook_post now data s)) =
     (if \<not> truthy data then 400
      else if stored data \<and> completes (dispatch (eventType_of data) data) then 200 else 500) \<and>
   (\<not> truthy data \<longrightarrow>
      webhook_post now data s =
        (\<lparr>code = 400, body = JObj [(''error'', JStr ''No data provided'')]\<rparr>,
         s\<lparr>console := console s @ [ConsoleWarn ''Received webhook with no data'']\<rparr>)) \<and>
   (truthy data \<longrightarrow> field data ''event'' = JUndefined \<longrightarrow>
    field data ''job_id'' = JUndefined \<longrightarrow> field data ''status'' = JUndefined \<longrightarrow>
      webhook_post now data s =
       (\<lparr>code = 200,
         body = JObj [(''status'', JStr ''success''),
                      (''message'', JStr ''Webhook unknown processed''),
                      (''job_id'', JStr ''unknown'')]\<rparr>,
        s\<lparr>console := console s @
             [ConsoleLog ([CHR 0x0A] @ sym_envelope @
                '' Received webhook: unknown for job unknown (status: unknown)''),
              ConsoleWarn (sym_warning @ ''  Unknown event type: unknown'')],
          webhookEvents := webhookEvents s @ [entry now data]\<rparr>))"
  using code_post [of now data s] missing_fields_post [of data now s]
  by (simp add: webhook_post_def webhook_try_falsy)

text \<open>No body gives 400 and stores nothing; a body with only a timestamp gives 200 and is stored.\<close>

theorem rejected_iff_no_body_witness:
  "\<not> truthy JUndefined \<and> truthy (JObj [(''timestamp'', JStr t1)]) \<and>
   field (JObj [(''timestamp'', JStr t1)]) ''event'' = JUndefined \<and>
   field (JObj [(''timestamp'', JStr t1)]) ''job_id'' = JUndefined \<and>
   field (JObj [(''timestamp'', JStr t1)]) ''status'' = JUndefined \<and>
   code (fst (webhook_post t2 JUndefined init_server)) = 400 \<and>
   webhookEvents (snd (webhook_post t2 JUndefined init_server)) = [] \<and>
   code (fst (webhook_post t2 (JObj [(''timestamp'', JStr t1)]) init_server)) = 200 \<and>
   webhookEvents (snd (webhook_post t2 (JObj [(''timestamp'', JStr t1)]) init_server)) =
     [[(''timestamp'', JStr t1), (''received_at'', JStr t2)]]"
  using rejected_iff_no_body [of t2 JUndefined init_server]
    rejected_iff_no_body [of t2 "JObj [(''timestamp'', JStr t1)]" init_server]
  by (simp add: init_server_def entry_def)

text \<open>
  C6 as stated fails: the empty object lacks \<^verbatim>\<open>event\<close>, \<^verbatim>\<open>job_id\<close> and
  \<^verbatim>\<open>status\<close>, and it is answered with 200 and stored.
\<close>

theorem rejected_counterexample:
  "field (JObj []) ''event'' = JUndefined \<and> field (JObj []) ''job_id'' = JUndefined \<and>
   field (JObj []) ''status'' = JUndefined \<and>
   code (fst (webhook_post t1 (JObj []) init_server)) = 200 \<and>
   webhookEvents (snd (webhook_post t1 (JObj []) init_server)) = [[(''received_at'', JStr t1)]]"
  by (simp add: missing_fields_post entry_def init_server_def)

subsection \<open>When a download is started\<close>

text \<open>
  Claim C10, as the code has it. On a \<^verbatim>\<open>tts_delivered\<close> event a download is started, for
  the job id and the URL of the payload, if and only if \<^verbatim>\<open>audio_file_url\<close> is truthy and
  \<^verbatim>\<open>handleDelivered\<close> gets as far as testing it: the request is stored and the job id,
  audio URL, S3 URL, duration and credits convert to strings. In particular no download
  is started when \<^verbatim>\<open>audio_file_url\<close> is not truthy.
\<close>

theorem download_iff_audio_url:
  assumes "field data ''event'' = JStr ''tts_delivered''"
  shows "requests (snd (webhook_post now data s)) =
     (if stored data \<and> delivered_printable data \<and> truthy (field data ''audio_file_url'')
      then requests s @ [(field data ''job_id'', field data ''audio_file_url'')]
      else requests s)"
  using assms by (rule requests_post_delivered)

lemma ev_delivered_facts:
  "field ev_delivered ''event'' = JStr ''tts_delivered''"
  "stored ev_delivered" "delivered_printable ev_delivered"
  "truthy (field ev_delivered ''audio_file_url'')"
  "field ev_delivered ''job_id'' = JStr ''j1''"
  "field ev_delivered ''audio_file_url'' = JStr ''https://x/a.mp3''"
  by (simp_all add: ev_delivered_def stored_def delivered_printable_def printable_def
        eventType_of_def jobId_of_def status_of_def js_or_def)

text \<open>The delivered event of job \<^verbatim>\<open>j1\<close> starts one download.\<close>

theorem download_iff_audio_url_witness:
  "field ev_delivered ''event'' = JStr ''tts_delivered'' \<and>
   requests (snd (webhook_post t1 ev_delivered init_server)) =
     [(JStr ''j1'', JStr ''https://x/a.mp3'')]"
  using download_iff_audio_url [OF ev_delivered_facts(1), of t1 init_server]
  by (simp add: ev_delivered_facts init_server_def)

text \<open>
  C10 as stated fails: with \<^verbatim>\<open>audio_file_url\<close> present and non-empty, and \<^verbatim>\<open>s3_url\<close>
  an object with an own \<^verbatim>\<open>toString\<close> property, the console message for the S3 URL
  throws and no download is started.
\<close>

theorem download_iff_audio_url_counterexample:
  "field ev_delivered_object_s3 ''event'' = JStr ''tts_delivered'' \<and>
   field ev_delivered_object_s3 ''audio_file_url'' = JStr ''https://x/a.mp3'' \<and>
   truthy (field ev_delivered_object_s3 ''audio_file_url'') \<and>
   requests (snd (webhook_post t1 ev_delivered_object_s3 init_server)) = []"
proof -
  have e: "field ev_delivered_object_s3 ''event'' = JStr ''tts_delivered''"
    by (simp add: ev_delivered_object_s3_def)
  have n: "\<not> delivered_printable ev_delivered_object_s3"
    by (simp add: ev_delivered_object_s3_def delivered_printable_def printable_def)
  show ?thesis
    using requests_post_delivered [OF e, of t1 init_server] n
    by (simp add: init_server_def) (simp add: ev_delivered_object_s3_def)
qed

lemma deliveries:
  assumes ev: "field data ''event'' = JStr ''tts_delivered''"
    and st: "stored data" and pr: "delivered_printable data"
    and au: "truthy (field data ''audio_file_url'')"
  shows "requests (posts (map (\<lambda>now. (now, data)) ts) s) =
       requests s @ replicate (length ts) (field data ''job_id'', field data ''audio_file_url'')"
proof (induction ts arbitrary: s)
  case Nil
  show ?case by simp
next
  case (Cons t ts)
  show ?case
    by (simp add: Cons.IH delivered_post [OF ev st pr au] replicate_app_Cons_same)
qed

subsection \<open>Repeated deliveries\<close>

text \<open>
  Claim C1, as the code has it. Nothing deduplicates deliveries: when a \<^verbatim>\<open>tts_delivered\<close>
  event with a truthy \<^verbatim>\<open>audio_file_url\<close> (whose printed fields convert to strings) is
  delivered N times, N downloads are started, one per delivery.
\<close>

theorem one_download_per_delivery:
  assumes "field data ''event'' = JStr ''tts_delivered''"
    and "stored data" and "delivered_printable data"
    and "truthy (field data ''audio_file_url'')"
  shows "requests (posts (map (\<lambda>now. (now, data)) ts) s) =
       requests s @ replicate (length ts) (field data ''job_id'', field data ''audio_file_url'')"
  using assms by (rule deliveries)

text \<open>Three deliveries of the delivered event of job \<^verbatim>\<open>j1\<close> start three downloads.\<close>

theorem one_download_per_delivery_witness:
  "field ev_delivered ''event'' = JStr ''tts_delivered'' \<and> stored ev_delivered \<and>
   delivered_printable ev_delivered \<and> truthy (field ev_delivered ''audio_file_url'') \<and>
   requests (posts (map (\<lambda>now. (now, ev_delivered)) [t1, t2, t1]) init_server) =
     [(JStr ''j1'', JStr ''https://x/a.mp3''), (JStr ''j1'', JStr ''https://x/a.mp3''),
      (JStr ''j1'', JStr ''https://x/a.mp3'')]"
  using one_download_per_delivery [OF ev_delivered_facts(1-4), of "[t1, t2, t1]" init_server]
  by (simp add: ev_delivered_facts init_server_def)

text \<open>C1 as stated fails: two deliveries of the same terminal event start two downloads.\<close>

theorem one_download_counterexample:
  "requests (posts [(t1, ev_delivered), (t2, ev_delivered)] init_server) =
     [(JStr ''j1'', JStr ''https://x/a.mp3''), (JStr ''j1'', JStr ''https://x/a.mp3'')]"
  using deliveries [OF ev_delivered_facts(1-4), of "[t1, t2]" init_server]
  by (simp add: ev_delivered_facts init_server_def)

subsection \<open>Events after a terminal event\<close>

text \<open>
  Claim C2, as the code has it. The server keeps no state per job: the response to a
  request and what the request adds to the event log, the console and the started downloads
  are the same in every state, whatever was received before, also a terminal event for the
  same job id.
\<close>

theorem no_job_state:
  "webhook_post now data s =
     (fst (webhook_post now data init_server),
      extend s (snd (webhook_post now data init_server)))"
  by (rule webhook_post_extend)

text \<open>
  C2 as stated fails: after \<^verbatim>\<open>tts_failed\<close> for job \<^verbatim>\<open>j1\<close>, a \<^verbatim>\<open>tts_delivered\<close>
  for \<^verbatim>\<open>j1\<close> is not discarded; it is stored after the failure and starts the download.
\<close>

theorem sticky_terminal_counterexample:
  "get_events_job ''j1'' (posts [(t1, ev_failed), (t2, ev_delivered)] init_server) =
     JArr [JObj (entry t1 ev_failed), JObj (entry t2 ev_delivered)] \<and>
   requests (posts [(t1, ev_failed), (t2, ev_delivered)] init_server) =
     [(JStr ''j1'', JStr ''https://x/a.mp3'')]"
proof -
  have f: "eventType_of ev_failed \<noteq> JStr ''tts_delivered''" "stored ev_failed"
    "field ev_failed ''job_id'' = JStr ''j1''"
    by (simp_all add: ev_failed_def eventType_of_def jobId_of_def status_of_def js_or_def
          stored_def printable_def)
  have 1: "get_events_job ''j1'' (posts [(t1, ev_failed), (t2, ev_delivered)] init_server) =
     JArr [JObj (entry t1 ev_failed), JObj (entry t2 ev_delivered)]"
    by (simp add: get_events_job_def webhookEvents_post f ev_delivered_facts init_server_def
          strict_eq_str_iff job_id_of_entry)
  have 2: "requests (posts [(t1, ev_failed), (t2, ev_delivered)] init_server) =
     [(JStr ''j1'', JStr ''https://x/a.mp3'')]"
    by (simp add: requests_post_other [OF f(1)]
          requests_post_delivered [OF ev_delivered_facts(1)] ev_delivered_facts init_server_def)
  show ?thesis using 1 2 by blast
qed

subsection \<open>Waiting for a job\<close>


lemma readable_iff:
  "readable v \<longleftrightarrow> (\<exists>st. get_prop v ''status'' = Inr st \<and> printable st)"
  by (simp add: readable_def split: sum.splits)














section \<open>Properties of the polling script\<close>

lemma queries_of_append [simp]: "queries_of (xs @ ys) = queries_of xs @ queries_of ys"
  by (induction xs rule: queries_of.induct) simp_all

lemma sleeps_of_append [simp]: "sleeps_of (xs @ ys) = sleeps_of xs @ sleeps_of ys"
  by (induction xs rule: sleeps_of.induct) simp_all

lemma fetches_of_append [simp]: "fetches_of (xs @ ys) = fetches_of xs @ fetches_of ys"
  by (induction xs rule: fetches_of.induct) simp_all

lemma completed_actions_trace [simp]:
  "queries_of (completed_actions env jobId v) = []"
  "sleeps_of (completed_actions env jobId v) = []"
  by (simp_all add: completed_actions_def split: option.splits)

lemma failed_actions_trace [simp]:
  "queries_of (failed_actions v) = []" "sleeps_of (failed_actions v) = []"
  "fetches_of (failed_actions v) = []"
  by (simp_all add: failed_actions_def)

lemma cancelled_actions_trace [simp]:
  "queries_of cancelled_actions = []" "sleeps_of cancelled_actions = []"
  "fetches_of cancelled_actions = []"
  by (simp_all add: cancelled_actions_def)

lemma timeout_actions_trace [simp]:
  "queries_of (timeout_actions jobId) = []" "sleeps_of (timeout_actions jobId) = []"
  "fetches_of (timeout_actions jobId) = []"
  by (simp_all add: timeout_actions_def)

lemma done_actions_trace [simp]:
  "queries_of done_actions = []" "sleeps_of done_actions = []" "fetches_of done_actions = []"
  by (simp_all add: done_actions_def)


lemma poll_loop_step:
  assumes "a < m" "\<not> terminal_status (STATUS (responses env (Suc a)))"
  shows "poll_loop env jobId m i a =
     (fst (poll_loop env jobId m i (Suc a)),
      [Query (Suc a), Echo (attempt_line (Suc a) m (responses env (Suc a))), Sleep i] @
      snd (poll_loop env jobId m i (Suc a)))"
  using assms by (subst poll_loop.simps) (simp add: terminal_status_def Let_def)

lemma poll_loop_terminal:
  assumes "a < m" "terminal_status (STATUS (responses env (Suc a)))"
  shows "poll_loop env jobId m i a =
     (if STATUS (responses env (Suc a)) = ''completed'' then Ended (Suc a) else Exited 1,
      [Query (Suc a), Echo (attempt_line (Suc a) m (responses env (Suc a)))] @
      (if STATUS (responses env (Suc a)) = ''completed''
       then completed_actions env jobId (responses env (Suc a))
       else if STATUS (responses env (Suc a)) = ''failed''
       then failed_actions (responses env (Suc a))
       else cancelled_actions))"
  using assms by (subst poll_loop.simps) (auto simp add: terminal_status_def Let_def)



lemma poll_loop_first_terminal:
  assumes "a < k" "k \<le> m" "terminal_status (STATUS (responses env k))"
    "\<forall>n. a < n \<and> n < k \<longrightarrow> \<not> terminal_status (STATUS (responses env n))"
  shows "fst (poll_loop env jobId m i a) =
       (if STATUS (responses env k) = ''completed'' then Ended k else Exited 1) \<and>
     queries_of (snd (poll_loop env jobId m i a)) = [Suc a..<Suc k] \<and>
     sleeps_of (snd (poll_loop env jobId m i a)) = replicate (k - Suc a) i \<and>
     (STATUS (responses env k) \<noteq> ''completed'' \<longrightarrow>
        fetches_of (snd (poll_loop env jobId m i a)) = []) \<and>
     (STATUS (responses env k) = ''failed'' \<longrightarrow> present (ERROR_MESSAGE (responses env k)) \<longrightarrow>
        Echo (''  Error: '' @ ERROR_MESSAGE (responses env k)) \<in> set (snd (poll_loop env jobId m i a))) \<and>
     (STATUS (responses env k) = ''cancelled'' \<longrightarrow>
        Echo (sym_ballot @ '' Job was cancelled'') \<in> set (snd (poll_loop env jobId m i a)))"
  using assms
proof (induction "k - Suc a" arbitrary: a)
  case 0
  then have k: "k = Suc a" by simp
  have lt: "a < m" using 0 by simp
  have t: "terminal_status (STATUS (responses env (Suc a)))" using 0 k by simp
  show ?case
    using k by (simp add: poll_loop_terminal [OF lt t] failed_actions_def cancelled_actions_def)
next
  case (Suc d)
  then have lt: "a < m" and ak: "Suc a < k" by simp_all
  have nt: "\<not> terminal_status (STATUS (responses env (Suc a)))"
    using Suc.prems ak by simp
  have "d = k - Suc (Suc a)" using Suc.hyps by simp
  moreover note ak \<open>k \<le> m\<close> \<open>terminal_status (STATUS (responses env k))\<close>
  moreover have "\<forall>n. Suc a < n \<and> n < k \<longrightarrow> \<not> terminal_status (STATUS (responses env n))"
    using Suc.prems by simp
  ultimately have ih: "fst (poll_loop env jobId m i (Suc a)) =
       (if STATUS (responses env k) = ''completed'' then Ended k else Exited 1) \<and>
     queries_of (snd (poll_loop env jobId m i (Suc a))) = [Suc (Suc a)..<Suc k] \<and>
     sleeps_of (snd (poll_loop env jobId m i (Suc a))) = replicate (k - Suc (Suc a)) i \<and>
     (STATUS (responses env k) \<noteq> ''completed'' \<longrightarrow>
        fetches_of (snd (poll_loop env jobId m i (Suc a))) = []) \<and>
     (STATUS (responses env k) = ''failed'' \<longrightarrow> present (ERROR_MESSAGE (responses env k)) \<longrightarrow>
        Echo (''  Error: '' @ ERROR_MESSAGE (responses env k)) \<in> set (snd (poll_loop env jobId m i (Suc a)))) \<and>
     (STATUS (responses env k) = ''cancelled'' \<longrightarrow>
        Echo (sym_ballot @ '' Job was cancelled'') \<in> set (snd (poll_loop env jobId m i (Suc a))))"
    by (rule Suc.hyps(1))
  have "[Suc a..<Suc k] = Suc a # [Suc (Suc a)..<Suc k]"
    using ak by (simp add: upt_conv_Cons)
  moreover have "replicate (k - Suc a) i = i # replicate (k - Suc (Suc a)) i"
    using ak by (simp add: Suc_diff_Suc flip: replicate_Suc)
  ultimately show ?case
    using ih by (simp add: poll_loop_step [OF lt nt])
qed

lemma poll_script_trace:
  "queries_of (snd (poll_script env jobId m i)) = queries_of (snd (poll_loop env jobId m i 0))"
  "sleeps_of (snd (poll_script env jobId m i)) = sleeps_of (snd (poll_loop env jobId m i 0))"
  "fetches_of (snd (poll_script env jobId m i)) = fetches_of (snd (poll_loop env jobId m i 0))"
  by (simp_all add: poll_script_def split: prod.splits loop_end.splits)



lemma poll_script_not_completed:
  assumes "0 < k" "k \<le> m" "terminal_status (STATUS (responses env k))"
    "\<forall>n. 0 < n \<and> n < k \<longrightarrow> \<not> terminal_status (STATUS (responses env n))"
    "STATUS (responses env k) \<noteq> ''completed''"
  shows "fst (poll_script env jobId m i) = 1"
    "fetches_of (snd (poll_script env jobId m i)) = []"
    "STATUS (responses env k) = ''failed'' \<Longrightarrow> present (ERROR_MESSAGE (responses env k)) \<Longrightarrow>
       Echo (''  Error: '' @ ERROR_MESSAGE (responses env k)) \<in> set (snd (poll_script env jobId m i))"
    "STATUS (responses env k) = ''cancelled'' \<Longrightarrow>
       Echo (sym_ballot @ '' Job was cancelled'') \<in> set (snd (poll_script env jobId m i))"
proof -
  note l = poll_loop_first_terminal [OF assms(1-4), of jobId i]
  obtain tr where p: "poll_loop env jobId m i 0 = (Exited 1, tr)"
    using l assms(5) by (cases "poll_loop env jobId m i 0") simp
  show "fst (poll_script env jobId m i) = 1"
    by (simp add: poll_script_def p)
  show "fetches_of (snd (poll_script env jobId m i)) = []"
    using l assms(5) by (simp only: poll_script_trace) simp
  show "Echo (''  Error: '' @ ERROR_MESSAGE (responses env k)) \<in> set (snd (poll_script env jobId m i))"
    if "STATUS (responses env k) = ''failed''" "present (ERROR_MESSAGE (responses env k))"
    using l that by (simp add: poll_script_def p)  show "Echo (sym_ballot @ '' Job was cancelled'') \<in> set (snd (poll_script env jobId m i))"
    if "STATUS (responses env k) = ''cancelled''"
    using l that by (simp add: poll_script_def p)
qed


lemma no_error_before_cancelled:
  assumes "a < k" "k \<le> m" "STATUS (responses env k) = ''cancelled''"
    "\<forall>n. a < n \<and> n < k \<longrightarrow> \<not> terminal_status (STATUS (responses env n))"
  shows "Echo (''  Error: '' @ x) \<notin> set (snd (poll_loop env jobId m i a))"
  using assms
proof (induction "k - Suc a" arbitrary: a)
  case 0
  then have k: "k = Suc a" by simp
  have lt: "a < m" using 0 by simp
  have t: "terminal_status (STATUS (responses env (Suc a)))"
    using 0 k by (simp add: terminal_status_def)
  show ?case
    using k 0(4) by (simp add: poll_loop_terminal [OF lt t] cancelled_actions_def attempt_line_def sym_ballot_def)
next
  case (Suc d)
  then have lt: "a < m" and ak: "Suc a < k" by simp_all
  have nt: "\<not> terminal_status (STATUS (responses env (Suc a)))"
    using Suc.prems ak by simp
  have "d = k - Suc (Suc a)" using Suc.hyps by simp
  moreover note ak \<open>k \<le> m\<close> \<open>STATUS (responses env k) = ''cancelled''\<close>
  moreover have "\<forall>n. Suc a < n \<and> n < k \<longrightarrow> \<not> terminal_status (STATUS (responses env n))"
    using Suc.prems by simp
  ultimately have ih: "Echo (''  Error: '' @ x) \<notin> set (snd (poll_loop env jobId m i (Suc a)))"
    by (rule Suc.hyps(1))
  show ?case
    using ih by (simp add: poll_loop_step [OF lt nt] attempt_line_def)
qed




lemma poll_script_cancelled:
  assumes "0 < k" "k \<le> m" "STATUS (responses env k) = ''cancelled''"
    "\<forall>n. 0 < n \<and> n < k \<longrightarrow> \<not> terminal_status (STATUS (responses env n))"
  shows "Echo (''  Error: '' @ x) \<notin> set (snd (poll_script env jobId m i))"
proof -
  have t: "terminal_status (STATUS (responses env k))"
    using assms(3) by (simp add: terminal_status_def)
  note l = poll_loop_first_terminal [OF assms(1,2) t assms(4), of jobId i]
  obtain tr where p: "poll_loop env jobId m i 0 = (Exited 1, tr)"
    using l assms(3) by (cases "poll_loop env jobId m i 0") simp
  show ?thesis
    using no_error_before_cancelled [OF assms, of x jobId i] by (simp add: poll_script_def p)
qed






section \<open>Failed jobs and failed downloads\<close>

lemma console_error_Inr:
  "template ps = Inr str \<Longrightarrow>
   console_error ps s = (Inr (), s\<lparr>console := console s @ [ConsoleError str]\<rparr>)"
  by (simp add: js_defs)

lemma failed_post:
  assumes ev: "field data ''event'' = JStr ''tts_failed''"
    and st: "stored data" and pr: "printable (field data ''error_message'')"
  shows "webhook_post now data s =
     (ack data,
      s\<lparr>console := console s @
           [ConsoleLog (header data),
            ConsoleError (sym_cross @ '' Job '' @ str_of (field data ''job_id'') @ '' failed: '' @
              str_of (js_or (field data ''error_message'') (JStr ''Unknown error'')))],
        webhookEvents := webhookEvents s @ [entry now data]\<rparr>)"
proof -
  have t: "truthy data" using st by (simp add: stored_def)
  have e: "eventType_of data = JStr ''tts_failed''"
    using ev by (simp add: eventType_of_def js_or_def)
  have "printable (field data ''job_id'')"
    using st printable_js_or [of "field data ''job_id''" "''unknown''"]
    by (simp add: stored_def jobId_of_def)
  then have j: "to_string (field data ''job_id'') = Inr (str_of (field data ''job_id''))"
    by (rule printable_str_of)
  have "printable (js_or (field data ''error_message'') (JStr ''Unknown error''))"
    using pr by (simp add: printable_js_or)
  then have m: "to_string (js_or (field data ''error_message'') (JStr ''Unknown error'')) =
      Inr (str_of (js_or (field data ''error_message'') (JStr ''Unknown error'')))"
    by (rule printable_str_of)
  have tm: "template [Lit (sym_cross @ '' Job ''), Val (field data ''job_id''), Lit '' failed: '',
                 Val (js_or (field data ''error_message'') (JStr ''Unknown error''))] =
      Inr (sym_cross @ '' Job '' @ str_of (field data ''job_id'') @ '' failed: '' @
              str_of (js_or (field data ''error_message'') (JStr ''Unknown error'')))"
    using j m by simp
  have h: "handleFailed data = console_error [Lit (sym_cross @ '' Job ''), Val (field data ''job_id''),
      Lit '' failed: '', Val (js_or (field data ''error_message'') (JStr ''Unknown error''))]"
    using t by (simp add: handleFailed_def get_prop_truthy bnd_lift_Inr)
  show ?thesis
    by (simp add: webhook_post_def webhook_try_stored [OF st] e dispatch_failed h
          console_error_Inr [OF tm])
qed

subsection \<open>Failed and cancelled jobs\<close>

lemma delivered_after_failed:
  assumes f: "field data ''event'' = JStr ''tts_failed''"
    and d: "field d ''event'' = JStr ''tts_delivered''"
    and st: "stored d" and pr: "delivered_printable d" and au: "truthy (field d ''audio_file_url'')"
  shows "requests (posts [(now, data), (now', d)] s) =
     requests s @ [(field d ''job_id'', field d ''audio_file_url'')]"
proof -
  have "eventType_of data \<noteq> JStr ''tts_delivered''"
    using f by (simp add: eventType_of_def js_or_def)
  then have 1: "requests (snd (webhook_post now data s)) = requests s"
    by (rule requests_post_other)
  show ?thesis
    using st pr au by (simp add: requests_post_delivered [OF d] 1)
qed

text \<open>
  Claim C7, as the code has it. In the webhook server the handling of an event other than
  \<^verbatim>\<open>tts_delivered\<close>, so also of \<^verbatim>\<open>tts_failed\<close> and of any event of a cancellation,
  starts no download, and a stored \<^verbatim>\<open>tts_failed\<close> event whose error message can be
  printed writes the job id and the error message (or \<^verbatim>\<open>Unknown error\<close>) to the error
  console; but nothing is remembered about the job, and a \<^verbatim>\<open>tts_delivered\<close> event that
  follows the failure starts its download. In the polling script a first terminal status
  \<^verbatim>\<open>failed\<close> or \<^verbatim>\<open>cancelled\<close> fetches nothing and exits with status 1; for
  \<^verbatim>\<open>failed\<close> the error message of the response, if present, is printed; for
  \<^verbatim>\<open>cancelled\<close> only the cancellation is printed, and no error message.
\<close>

theorem failure_no_download:
  "(eventType_of data \<noteq> JStr ''tts_delivered'' \<longrightarrow>
      requests (snd (webhook_post now data s)) = requests s) \<and>
   (field data ''event'' = JStr ''tts_failed'' \<longrightarrow> stored data \<longrightarrow>
    printable (field data ''error_message'') \<longrightarrow>
      webhook_post now data s =
       (ack data,
        s\<lparr>console := console s @
             [ConsoleLog (header data),
              ConsoleError (sym_cross @ '' Job '' @ str_of (field data ''job_id'') @ '' failed: '' @
                str_of (js_or (field data ''error_message'') (JStr ''Unknown error'')))],
          webhookEvents := webhookEvents s @ [entry now data]\<rparr>)) \<and>
   (field data ''event'' = JStr ''tts_failed'' \<longrightarrow> field d ''event'' = JStr ''tts_delivered'' \<longrightarrow>
    stored d \<longrightarrow> delivered_printable d \<longrightarrow> truthy (field d ''audio_file_url'') \<longrightarrow>
      requests (posts [(now, data), (now', d)] s) =
        requests s @ [(field d ''job_id'', field d ''audio_file_url'')]) \<and>
   (0 < k \<and> k \<le> m \<and>
    (STATUS (responses env k) = ''failed'' \<or> STATUS (responses env k) = ''cancelled'') \<and>
    (\<forall>n. 0 < n \<and> n < k \<longrightarrow> \<not> terminal_status (STATUS (responses env n))) \<longrightarrow>
      fst (poll_script env jobId m i) = 1 \<and>
      fetches_of (snd (poll_script env jobId m i)) = [] \<and>
      (STATUS (responses env k) = ''failed'' \<longrightarrow> present (ERROR_MESSAGE (responses env k)) \<longrightarrow>
         Echo (''  Error: '' @ ERROR_MESSAGE (responses env k)) \<in> set (snd (poll_script env jobId m i))) \<and>
      (STATUS (responses env k) = ''cancelled'' \<longrightarrow>
         Echo (sym_ballot @ '' Job was cancelled'') \<in> set (snd (poll_script env jobId m i)) \<and>
         Echo (''  Error: '' @ x) \<notin> set (snd (poll_script env jobId m i))))"
proof -
  have 1: "eventType_of data \<noteq> JStr ''tts_delivered'' \<longrightarrow>
      requests (snd (webhook_post now data s)) = requests s"
    using requests_post_other [of data now s] by blast
  have 3: "fst (poll_script env jobId m i) = 1 \<and>
      fetches_of (snd (poll_script env jobId m i)) = [] \<and>
      (STATUS (responses env k) = ''failed'' \<longrightarrow> present (ERROR_MESSAGE (responses env k)) \<longrightarrow>
         Echo (''  Error: '' @ ERROR_MESSAGE (responses env k)) \<in> set (snd (poll_script env jobId m i))) \<and>
      (STATUS (responses env k) = ''cancelled'' \<longrightarrow>
         Echo (sym_ballot @ '' Job was cancelled'') \<in> set (snd (poll_script env jobId m i)) \<and>
         Echo (''  Error: '' @ x) \<notin> set (snd (poll_script env jobId m i)))"
    if h: "0 < k \<and> k \<le> m \<and>
      (STATUS (responses env k) = ''failed'' \<or> STATUS (responses env k) = ''cancelled'') \<and>
      (\<forall>n. 0 < n \<and> n < k \<longrightarrow> \<not> terminal_status (STATUS (responses env n)))"
  proof -
    have t: "terminal_status (STATUS (responses env k))"
      using h by (auto simp add: terminal_status_def)
    have nc: "STATUS (responses env k) \<noteq> ''completed''" using h by auto
    show ?thesis
      using poll_script_not_completed [of k m env jobId i]
        poll_script_cancelled [of k m env x jobId i] h t nc by blast
  qed
  show ?thesis
    using 1 failed_post [of data now s] delivered_after_failed [of data d now now' s] 3 by blast
qed

text \<open>
  The failed event of job \<^verbatim>\<open>j1\<close>, alone and followed by the delivered event, and the
  script on a job failed or cancelled at the third request.
\<close>

theorem failure_no_download_witness:
  "eventType_of ev_failed \<noteq> JStr ''tts_delivered'' \<and>
   field ev_failed ''event'' = JStr ''tts_failed'' \<and> stored ev_failed \<and>
   printable (field ev_failed ''error_message'') \<and>
   requests (snd (webhook_post t1 ev_failed init_server)) = [] \<and>
   console (snd (webhook_post t1 ev_failed init_server)) =
     [ConsoleLog ([CHR 0x0A] @ sym_envelope @ '' Received webhook: tts_failed for job j1 (status: failed)''),
      ConsoleError (sym_cross @ '' Job j1 failed: synthesis error'')] \<and>
   requests (posts [(t1, ev_failed), (t2, ev_delivered)] init_server) =
     [(JStr ''j1'', JStr ''https://x/a.mp3'')] \<and>
   STATUS (responses (env_third ''failed'') 3) = ''failed'' \<and>
   fst (poll_script (env_third ''failed'') ''j1'' 30 2) = 1 \<and>
   fetches_of (snd (poll_script (env_third ''failed'') ''j1'' 30 2)) = [] \<and>
   Echo ''  Error: synthesis error'' \<in> set (snd (poll_script (env_third ''failed'') ''j1'' 30 2)) \<and>
   STATUS (responses (env_third ''cancelled'') 3) = ''cancelled'' \<and>
   fst (poll_script (env_third ''cancelled'') ''j1'' 30 2) = 1 \<and>
   fetches_of (snd (poll_script (env_third ''cancelled'') ''j1'' 30 2)) = [] \<and>
   Echo (sym_ballot @ '' Job was cancelled'') \<in> set (snd (poll_script (env_third ''cancelled'') ''j1'' 30 2)) \<and>
   Echo ''  Error: synthesis error'' \<notin> set (snd (poll_script (env_third ''cancelled'') ''j1'' 30 2))"
proof -
  have f: "eventType_of ev_failed \<noteq> JStr ''tts_delivered''"
    "field ev_failed ''event'' = JStr ''tts_failed''" "stored ev_failed"
    "printable (field ev_failed ''error_message'')"
    by (simp_all add: ev_failed_def eventType_of_def jobId_of_def status_of_def js_or_def
          stored_def printable_def)
  have v: "header ev_failed =
      [CHR 0x0A] @ sym_envelope @ '' Received webhook: tts_failed for job j1 (status: failed)''"
    "str_of (field ev_failed ''job_id'') = ''j1''"
    "str_of (js_or (field ev_failed ''error_message'') (JStr ''Unknown error'')) = ''synthesis error''"
    by (simp_all add: header_def ev_failed_def eventType_of_def jobId_of_def status_of_def
          js_or_def str_of_def)
  have sf: "0 < (3::nat) \<and> (3::nat) \<le> 30 \<and>
      (STATUS (responses (env_third ''failed'') 3) = ''failed'' \<or>
       STATUS (responses (env_third ''failed'') 3) = ''cancelled'') \<and>
      (\<forall>n. 0 < n \<and> n < 3 \<longrightarrow> \<not> terminal_status (STATUS (responses (env_third ''failed'') n)))"
    "present (ERROR_MESSAGE (responses (env_third ''failed'') 3))"
    "ERROR_MESSAGE (responses (env_third ''failed'') 3) = ''synthesis error''"
    "STATUS (responses (env_third ''failed'') 3) = ''failed''"
    by (simp_all add: env_third_def vars_def terminal_status_def present_def)
  have sc: "0 < (3::nat) \<and> (3::nat) \<le> 30 \<and>
      (STATUS (responses (env_third ''cancelled'') 3) = ''failed'' \<or>
       STATUS (responses (env_third ''cancelled'') 3) = ''cancelled'') \<and>
      (\<forall>n. 0 < n \<and> n < 3 \<longrightarrow> \<not> terminal_status (STATUS (responses (env_third ''cancelled'') n)))"
    "STATUS (responses (env_third ''cancelled'') 3) = ''cancelled''"
    by (simp_all add: env_third_def vars_def terminal_status_def)
  note tf = failure_no_download [of ev_failed t1 init_server ev_delivered t2 3 30
      "env_third ''failed''" "''j1''" 2 "''synthesis error''"]
  note tc = failure_no_download [of ev_failed t1 init_server ev_delivered t2 3 30
      "env_third ''cancelled''" "''j1''" 2 "''synthesis error''"]
  note tf3 = tf [THEN conjunct2, THEN conjunct2]
  note tc3 = tc [THEN conjunct2, THEN conjunct2]
  have 1: "requests (snd (webhook_post t1 ev_failed init_server)) = []"
    using tf [THEN conjunct1] f(1) by (simp add: init_server_def)
  have 2: "console (snd (webhook_post t1 ev_failed init_server)) =
     [ConsoleLog ([CHR 0x0A] @ sym_envelope @ '' Received webhook: tts_failed for job j1 (status: failed)''),
      ConsoleError (sym_cross @ '' Job j1 failed: synthesis error'')]"
    using tf [THEN conjunct2, THEN conjunct1] f by (simp add: v init_server_def)
  have 3: "requests (posts [(t1, ev_failed), (t2, ev_delivered)] init_server) =
     [(JStr ''j1'', JStr ''https://x/a.mp3'')]"
    using tf3 [THEN conjunct1, THEN mp, OF f(2), THEN mp, OF ev_delivered_facts(1), THEN mp,
        OF ev_delivered_facts(2), THEN mp, OF ev_delivered_facts(3), THEN mp, OF ev_delivered_facts(4)]
    by (simp only: ev_delivered_facts(5,6)) (simp add: init_server_def)
  note pf = tf3 [THEN conjunct2, THEN mp, OF sf(1)]
  note pc = tc3 [THEN conjunct2, THEN mp, OF sc(1)]
  have 4: "fst (poll_script (env_third ''failed'') ''j1'' 30 2) = 1"
    "fetches_of (snd (poll_script (env_third ''failed'') ''j1'' 30 2)) = []"
    using pf by simp_all
  have 5: "Echo ''  Error: synthesis error'' \<in> set (snd (poll_script (env_third ''failed'') ''j1'' 30 2))"
    using pf [THEN conjunct2, THEN conjunct2, THEN conjunct1, THEN mp, OF sf(4), THEN mp, OF sf(2)]
    by (simp only: sf(3)) simp
  have 6: "fst (poll_script (env_third ''cancelled'') ''j1'' 30 2) = 1"
    "fetches_of (snd (poll_script (env_third ''cancelled'') ''j1'' 30 2)) = []"
    using pc by simp_all
  note pcc = pc [THEN conjunct2, THEN conjunct2, THEN conjunct2, THEN mp, OF sc(2)]
  have 7: "Echo (sym_ballot @ '' Job was cancelled'') \<in> set (snd (poll_script (env_third ''cancelled'') ''j1'' 30 2))"
    by (rule pcc [THEN conjunct1])
  have 8: "Echo ''  Error: synthesis error'' \<notin> set (snd (poll_script (env_third ''cancelled'') ''j1'' 30 2))"
    using pcc [THEN conjunct2] by simp
  show ?thesis
    using f 1 2 3 4 5 6 7 8 sf(4) sc(2) by blast
qed

text \<open>
  C7 as stated fails: for a job that is cancelled with an error message in the status
  response, the script prints that the job was cancelled and not the error message.
\<close>

theorem cancelled_error_counterexample:
  "STATUS (responses env_cancelled 1) = ''cancelled'' \<and>
   ERROR_MESSAGE (responses env_cancelled 1) = ''cancelled by user'' \<and>
   present (ERROR_MESSAGE (responses env_cancelled 1)) \<and>
   tts_job_with_polling env_cancelled ''j1'' =
     (1, [Query 1, Echo ''  Attempt 1/30 - Status: cancelled'', Echo [],
          Echo (sym_ballot @ '' Job was cancelled'')])"
  by (simp add: tts_job_with_polling_def poll_script_def poll_loop.simps MAX_ATTEMPTS_def
        POLL_INTERVAL_def env_cancelled_def attempt_line_def nat_str.simps digit_def
        cancelled_actions_def present_def)

subsection \<open>Failed downloads\<close>

lemma downloadAudio_requests:
  "requests (snd (downloadAudio jobId audioUrl s)) =
     (if printable jobId then requests s @ [(jobId, audioUrl)] else requests s)"
  by (simp add: downloadAudio_def js_defs printable_def split: sum.splits)

lemma downloadAudio_settle_keeps:
  "requests (downloadAudio_settle filename r s) = requests s"
  "webhookEvents (downloadAudio_settle filename r s) = webhookEvents s"
  by (induction filename r s rule: downloadAudio_settle.induct) simp_all


text \<open>
  Claim C8, as the code has it. A download is never retried: \<^verbatim>\<open>downloadAudio\<close> of the
  server hands one request to axios, and what happens when the request settles starts no
  other request and leaves the event log alone; a rejected request writes one line to the
  error console. \<^verbatim>\<open>downloadAudio\<close> of the client fetches the URL once and a rejected
  request rejects the call with the same error.
\<close>

theorem download_not_retried:
  "requests (snd (downloadAudio jobId audioUrl s)) =
     (if printable jobId then requests s @ [(jobId, audioUrl)] else requests s) \<and>
   requests (downloadAudio_settle filename r s) = requests s \<and>
   webhookEvents (downloadAudio_settle filename r s) = webhookEvents s \<and>
   downloadAudio_settle filename (Rejected e) s =
     s\<lparr>console := console s @
          [ConsoleError (sym_cross @ '' Failed to download audio: '' @ message e)]\<rparr> \<and>
   fetches (snd (api_downloadAudio url r c)) = fetches c @ [url] \<and>
   fst (api_downloadAudio url (Rejected e) c) = Inl (Thrown e)"
  by (simp add: downloadAudio_requests downloadAudio_settle_keeps api_downloadAudio_def Let_def
        split: fetch_result.splits write_result.splits)

text \<open>
  C8 as stated fails: after a download that fails with status 404 there is still the one
  request, and the failure is only a line on the console.
\<close>

theorem download_retry_counterexample:
  "downloadAudio_settle ''downloads/j1.mp3'' (Rejected (Error ''Request failed with status code 404''))
     (snd (downloadAudio (JStr ''j1'') (JStr ''https://x/a.mp3'') init_server)) =
   \<lparr>webhookEvents = [],
    console = [ConsoleLog (sym_inbox @ '' Downloading audio for job j1''),
               ConsoleError (sym_cross @ '' Failed to download audio: Request failed with status code 404'')],
    requests = [(JStr ''j1'', JStr ''https://x/a.mp3'')]\<rparr>"
  by (simp add: downloadAudio_def js_defs init_server_def)

end
